theory Spec2Isabelle
  imports Main
begin

section \<open>Strings\<close>

text \<open>
  Python strings are modelled as \<open>string\<close>. \<open>py_lower\<close> maps the letters \<open>A\<close> to \<open>Z\<close> to
  \<open>a\<close> to \<open>z\<close> and leaves every other character as it is. It is \<open>str.lower\<close> on ASCII
  text, which \<open>isascii\<close> describes; on other text \<open>str.lower\<close> follows the Unicode tables,
  which are not modelled, so a statement about the lowercase form of a value is made for
  ASCII values. It is also the comparison without regard to ASCII case that the parsing
  of booleans uses, and the comparison of the name of a variable with the name of a
  field: the one character outside ASCII that \<open>str.lower\<close> maps to ASCII text is the
  Kelvin sign, mapped to \<open>k\<close>, so for every field but \<open>HF_TOKEN\<close> a name that \<open>str.lower\<close>
  maps to the lowercase name of the field is an ASCII name.
\<close>

definition char_lower :: "char \<Rightarrow> char" where
  "char_lower c =
     (case map_of (zip ''ABCDEFGHIJKLMNOPQRSTUVWXYZ'' ''abcdefghijklmnopqrstuvwxyz'') c of
        Some l \<Rightarrow> l
      | None \<Rightarrow> c)"

definition py_lower :: "string \<Rightarrow> string" where
  "py_lower s = map char_lower s"

definition isascii :: "string \<Rightarrow> bool" where
  "isascii s = list_all (\<lambda>c. \<not> digit7 c) s"

text \<open>The test \<open>sub in s\<close> on strings: \<open>sub\<close> occurs in \<open>s\<close> as a contiguous run.\<close>

fun contains :: "string \<Rightarrow> string \<Rightarrow> bool" where
  "contains [] sub = (sub = [])"
| "contains (c # cs) sub = (take (length sub) (c # cs) = sub \<or> contains cs sub)"

section \<open>The inputs of the module\<close>

text \<open>
  A table of variables (\<open>os.environ\<close>, or the key/value pairs read from an environment
  file) is the list of its items in iteration order. Where a table is turned into a
  dictionary, a later item overwrites an earlier one with the same key, so a lookup finds
  the last item with the key.
\<close>

type_synonym env_vars = "(string \<times> string) list"

definition dict_get :: "env_vars \<Rightarrow> string \<Rightarrow> string option" where
  "dict_get d k = map_of (rev d) k"

text \<open>
  What a construction of the settings reads from outside: the process environment, the
  parsed contents of the file \<open>.env\<close> of the working directory (\<open>None\<close> when there is no
  such file), and the answer of \<open>torch.cuda.is_available()\<close>.
\<close>

record world =
  environ :: env_vars
  dotenv :: "env_vars option"
  cuda_is_available :: bool

section \<open>The settings sources inherited from \<open>BaseSettings\<close>\<close>

text \<open>
  The classes of \<open>config.py\<close> declare fields and a \<open>model_config\<close>; the reading of the
  variables is done by the base class \<open>BaseSettings\<close> of pydantic-settings. Its behaviour is
  written out here for the options the module sets: a field is looked up under its own
  name in the process environment first and in the environment file (when the class names
  one) second; without \<open>case_sensitive\<close> the names of the variables and of the field are
  both lowercased before they are compared.
\<close>

record SettingsConfigDict =
  env_file :: "string option"
  env_file_encoding :: "string option"
  case_sensitive :: bool
  extra :: string
  env_nested_delimiter :: "string option"

text \<open>The configuration of a subclass of \<open>BaseSettings\<close> that declares no \<open>model_config\<close>.\<close>

definition BaseSettings_model_config :: SettingsConfigDict where
  "BaseSettings_model_config =
     \<lparr>env_file = None, env_file_encoding = None, case_sensitive = False,
      extra = ''forbid'', env_nested_delimiter = None\<rparr>"

definition parse_env_vars :: "SettingsConfigDict \<Rightarrow> env_vars \<Rightarrow> env_vars" where
  "parse_env_vars cfg vars =
     (if case_sensitive cfg then vars else map (\<lambda>(k, v). (py_lower k, v)) vars)"

definition env_name :: "SettingsConfigDict \<Rightarrow> string \<Rightarrow> string" where
  "env_name cfg field = (if case_sensitive cfg then field else py_lower field)"

definition source_value :: "SettingsConfigDict \<Rightarrow> env_vars \<Rightarrow> string \<Rightarrow> string option" where
  "source_value cfg vars field = dict_get (parse_env_vars cfg vars) (env_name cfg field)"

text \<open>The raw string a class with configuration \<open>cfg\<close> finds for a field, if any.\<close>

definition field_value :: "SettingsConfigDict \<Rightarrow> world \<Rightarrow> string \<Rightarrow> string option" where
  "field_value cfg w field =
     (case source_value cfg (environ w) field of
        Some v \<Rightarrow> Some v
      | None \<Rightarrow>
          (case env_file cfg of
             None \<Rightarrow> None
           | Some path \<Rightarrow>
               (case dotenv w of
                  None \<Rightarrow> None
                | Some vars \<Rightarrow> source_value cfg vars field)))"

text \<open>
  With an \<open>env_nested_delimiter\<close>, a variable whose name is the name of a nested field,
  the delimiter and the name of a member addresses that member. Each source gathers
  these variables into the data of the nested field, the member names as keys; the data
  of the process environment overwrite those of the environment file key by key. The
  nested class is then called with the data as keyword arguments.
\<close>

definition nested_vars :: "SettingsConfigDict \<Rightarrow> string \<Rightarrow> env_vars \<Rightarrow> env_vars" where
  "nested_vars cfg field vars =
     (case env_nested_delimiter cfg of
        None \<Rightarrow> []
      | Some delimiter \<Rightarrow>
          map (\<lambda>(k, v). (drop (length (env_name cfg field @ delimiter)) k, v))
            (filter (\<lambda>(k, v). take (length (env_name cfg field @ delimiter)) k
                                 = env_name cfg field @ delimiter)
               (parse_env_vars cfg vars)))"

definition nested_kwargs :: "SettingsConfigDict \<Rightarrow> world \<Rightarrow> string \<Rightarrow> env_vars" where
  "nested_kwargs cfg w field =
     (case env_file cfg of
        None \<Rightarrow> []
      | Some path \<Rightarrow> (case dotenv w of None \<Rightarrow> [] | Some vars \<Rightarrow> nested_vars cfg field vars))
     @ nested_vars cfg field (environ w)"

text \<open>
  Validation of a raw string against the declared type of the field. A field with no
  variable takes its default. A value that is not one of the type raises pydantic's
  \<open>ValidationError\<close>, which the specification calls \<open>ConfigValidationError\<close>; a variable of
  a set-valued field that is not a JSON document raises \<open>SettingsError\<close> while the source
  is read, before any validation.
\<close>

datatype error = SettingsError | ValidationError

definition validate_str :: "string option \<Rightarrow> string \<Rightarrow> string" where
  "validate_str raw dflt = (case raw of None \<Rightarrow> dflt | Some v \<Rightarrow> v)"

definition str_to_bool :: "string \<Rightarrow> bool option" where
  "str_to_bool s =
     (let l = py_lower s in
      if l \<in> set [''1'', ''on'', ''t'', ''true'', ''y'', ''yes''] then Some True
      else if l \<in> set [''0'', ''off'', ''f'', ''false'', ''n'', ''no''] then Some False
      else None)"

definition validate_bool :: "string option \<Rightarrow> bool \<Rightarrow> error + bool" where
  "validate_bool raw dflt =
     (case raw of
        None \<Rightarrow> Inr dflt
      | Some v \<Rightarrow> (case str_to_bool v of None \<Rightarrow> Inl ValidationError | Some b \<Rightarrow> Inr b))"

text \<open>An enum field accepts exactly the values of the members of its enum.\<close>

definition validate_enum :: "(string \<times> 'a) list \<Rightarrow> string option \<Rightarrow> 'a \<Rightarrow> error + 'a" where
  "validate_enum members raw dflt =
     (case raw of
        None \<Rightarrow> Inr dflt
      | Some v \<Rightarrow> (case map_of members v of None \<Rightarrow> Inl ValidationError | Some m \<Rightarrow> Inr m))"

text \<open>
  A class that is called with keyword arguments takes a field from them first and from
  its own sources second. It declares no \<open>model_config\<close>, so \<open>extra\<close> is \<open>forbid\<close>: a
  keyword that is not the name of a field is a validation error.
\<close>

definition init_or_env :: "env_vars \<Rightarrow> world \<Rightarrow> string \<Rightarrow> string option" where
  "init_or_env kwargs w field =
     (case dict_get kwargs field of
        Some v \<Rightarrow> Some v
      | None \<Rightarrow> field_value BaseSettings_model_config w field)"

definition unknown_kwargs :: "string list \<Rightarrow> env_vars \<Rightarrow> bool" where
  "unknown_kwargs names kwargs = list_ex (\<lambda>(k, v). k \<notin> set names) kwargs"

section \<open>What \<open>config.py\<close> takes from outside its file\<close>

text \<open>
  \<open>config.py\<close> imports \<open>ComputeType\<close>, \<open>Device\<close> and \<open>WhisperModel\<close> from \<open>app.schemas\<close> and
  names the members \<open>Device.cuda\<close>, \<open>Device.cpu\<close>, \<open>ComputeType.float16\<close>, \<open>ComputeType.int8\<close>
  and \<open>WhisperModel.tiny\<close>. Any further member of \<open>ComputeType\<close> or \<open>WhisperModel\<close> is
  represented by its name. The tables that give each enum's members by value are a
  parameter of the development.

  So is the reading of a JSON document as a set of strings, which the sources apply to
  the variable of a set-valued field: \<open>json.loads\<close> followed by the validation of the
  decoded value. \<open>str_set_of_json\<close> gives \<open>Inl SettingsError\<close> for a text that is not a
  JSON document, \<open>Inl ValidationError\<close> for a document that is not a set of strings,
  \<open>Inr None\<close> for the document \<open>null\<close> and \<open>Inr (Some S)\<close> for the set \<open>S\<close>.
\<close>

datatype Device = cuda | cpu

datatype ComputeType = float16 | int8 | ComputeType_member string

datatype WhisperModel = tiny | WhisperModel_member string

record schemas =
  Device_values :: "(string \<times> Device) list"
  ComputeType_values :: "(string \<times> ComputeType) list"
  WhisperModel_values :: "(string \<times> WhisperModel) list"
  str_set_of_json :: "string \<Rightarrow> error + string set option"

text \<open>
  Modelled from the spec: the member tables of \<open>app.schemas\<close>, which is not among the
  sources. The specification gives \<open>device\<close> the closed set cpu and cuda, and names a
  16-bit floating and an 8-bit-integer compute mode; each member is taken to have its own
  name as its value. The decoder is a table of four documents, \<open>[]\<close>, \<open>[".flac"]\<close>, \<open>null\<close>
  and the number \<open>1\<close>, read as \<open>json.loads\<close> and the validation of a set of strings read
  them; it takes every other text as no document, which is so for the texts of the
  examples below and not for a document outside the table. \<open>app_schemas\<close> is used for
  concrete evaluations only: the general statements hold for every table and decoder.
\<close>

definition app_schemas :: schemas where
  "app_schemas =
     \<lparr>Device_values = [(''cuda'', cuda), (''cpu'', cpu)],
      ComputeType_values = [(''float16'', float16), (''int8'', int8)],
      WhisperModel_values = [(''tiny'', tiny)],
      str_set_of_json =
        (\<lambda>v. if v = ''[]'' then Inr (Some {})
             else if v = ''[\".flac\"]'' then Inr (Some {''.flac''})
             else if v = ''null'' then Inr None
             else if v = ''1'' then Inl ValidationError
             else Inl SettingsError)\<rparr>"

section \<open>The settings groups\<close>

text \<open>
  Each group is given twice: called with keyword arguments, as the validation of a nested
  field of Settings calls it with the data of that field, and called with none, as its
  default factory calls it.
\<close>

subsection \<open>DatabaseSettings\<close>

record DatabaseSettings =
  DB_URL :: string
  DB_ECHO :: bool

definition DatabaseSettings_kwargs :: "env_vars \<Rightarrow> world \<Rightarrow> error + DatabaseSettings" where
  "DatabaseSettings_kwargs kwargs w =
     (if unknown_kwargs [''DB_URL'', ''DB_ECHO''] kwargs then Inl ValidationError
      else
        case validate_bool (init_or_env kwargs w ''DB_ECHO'') False of
          Inl e \<Rightarrow> Inl e
        | Inr echo \<Rightarrow>
            Inr \<lparr>DB_URL = validate_str (init_or_env kwargs w ''DB_URL'') ''sqlite:///records.db'',
                 DB_ECHO = echo\<rparr>)"

definition DatabaseSettings_init :: "world \<Rightarrow> error + DatabaseSettings" where
  "DatabaseSettings_init w = DatabaseSettings_kwargs [] w"

subsection \<open>WhisperSettings\<close>

record WhisperSettings =
  HF_TOKEN :: "string option"
  WHISPER_MODEL :: WhisperModel
  DEFAULT_LANG :: string
  DEVICE :: Device
  COMPUTE_TYPE :: ComputeType
  AUDIO_EXTENSIONS :: "string set"
  VIDEO_EXTENSIONS :: "string set"

text \<open>The defaults of the two sets of extensions, as the class body gives them.\<close>

definition AUDIO_EXTENSIONS_default :: "string set" where
  "AUDIO_EXTENSIONS_default =
     {''.mp3'', ''.wav'', ''.awb'', ''.aac'', ''.ogg'', ''.oga'', ''.m4a'', ''.wma'', ''.amr''}"

definition VIDEO_EXTENSIONS_default :: "string set" where
  "VIDEO_EXTENSIONS_default = {''.mp4'', ''.mov'', ''.avi'', ''.wmv'', ''.mkv''}"

text \<open>The two default factories, given the answer of \<open>torch.cuda.is_available()\<close>.\<close>

definition DEVICE_default_factory :: "bool \<Rightarrow> Device" where
  "DEVICE_default_factory available = (if available then cuda else cpu)"

definition COMPUTE_TYPE_default_factory :: "bool \<Rightarrow> ComputeType" where
  "COMPUTE_TYPE_default_factory available = (if available then float16 else int8)"

text \<open>The computed property: a function of the instance, not a field of it.\<close>

definition ALLOWED_EXTENSIONS :: "WhisperSettings \<Rightarrow> string set" where
  "ALLOWED_EXTENSIONS self = AUDIO_EXTENSIONS self \<union> VIDEO_EXTENSIONS self"

text \<open>The model validator, run after the fields are populated.\<close>

definition validate_compute_type_for_cpu :: "WhisperSettings \<Rightarrow> WhisperSettings" where
  "validate_compute_type_for_cpu self =
     (if DEVICE self = cpu \<and> COMPUTE_TYPE self \<noteq> int8
      then self\<lparr>COMPUTE_TYPE := int8\<rparr>
      else self)"

text \<open>
  A set-valued field. The environment source decodes the variable of the field as JSON
  when it reads it, whether or not a keyword argument will take precedence; the document
  \<open>null\<close> leaves the field without a value. A keyword argument comes from the nested
  source of Settings, which has decoded it already: there the empty text is handed on as
  it is, and it is not a set, and neither is \<open>null\<close>.
\<close>

definition env_set :: "schemas \<Rightarrow> world \<Rightarrow> string \<Rightarrow> error + string set option" where
  "env_set sch w field =
     (case field_value BaseSettings_model_config w field of
        None \<Rightarrow> Inr None
      | Some v \<Rightarrow> str_set_of_json sch v)"

definition decode_fails :: "schemas \<Rightarrow> world \<Rightarrow> string \<Rightarrow> bool" where
  "decode_fails sch w field =
     (case env_set sch w field of Inl SettingsError \<Rightarrow> True | _ \<Rightarrow> False)"

definition kwarg_set :: "schemas \<Rightarrow> string \<Rightarrow> error + string set option" where
  "kwarg_set sch v =
     (if v = [] then Inl ValidationError
      else
        case str_set_of_json sch v of
          Inl e \<Rightarrow> Inl e
        | Inr None \<Rightarrow> Inl ValidationError
        | Inr (Some S) \<Rightarrow> Inr (Some S))"

definition validate_set :: "schemas \<Rightarrow> env_vars \<Rightarrow> world \<Rightarrow> string \<Rightarrow> string set \<Rightarrow> error + string set" where
  "validate_set sch kwargs w field dflt =
     (case (case dict_get kwargs field of
              Some v \<Rightarrow> kwarg_set sch v
            | None \<Rightarrow> env_set sch w field) of
        Inl e \<Rightarrow> Inl ValidationError
      | Inr None \<Rightarrow> Inr dflt
      | Inr (Some S) \<Rightarrow> Inr S)"

text \<open>
  Population of the fields: each from its keyword argument, its variable or its default.
  The sources are read first, and a variable that cannot be decoded ends the construction
  there; then the values are validated.
\<close>

definition WhisperSettings_populate :: "schemas \<Rightarrow> env_vars \<Rightarrow> world \<Rightarrow> error + WhisperSettings" where
  "WhisperSettings_populate sch kwargs w =
     (if decode_fails sch w ''AUDIO_EXTENSIONS'' \<or> decode_fails sch w ''VIDEO_EXTENSIONS''
      then Inl SettingsError
      else if unknown_kwargs
                [''HF_TOKEN'', ''WHISPER_MODEL'', ''DEFAULT_LANG'', ''DEVICE'', ''COMPUTE_TYPE'',
                 ''AUDIO_EXTENSIONS'', ''VIDEO_EXTENSIONS''] kwargs
      then Inl ValidationError
      else
      case validate_enum (WhisperModel_values sch) (init_or_env kwargs w ''WHISPER_MODEL'') tiny of
        Inl e \<Rightarrow> Inl e
      | Inr model \<Rightarrow>
     (case validate_enum (Device_values sch) (init_or_env kwargs w ''DEVICE'')
             (DEVICE_default_factory (cuda_is_available w)) of
        Inl e \<Rightarrow> Inl e
      | Inr device \<Rightarrow>
     (case validate_enum (ComputeType_values sch) (init_or_env kwargs w ''COMPUTE_TYPE'')
             (COMPUTE_TYPE_default_factory (cuda_is_available w)) of
        Inl e \<Rightarrow> Inl e
      | Inr compute_type \<Rightarrow>
     (case validate_set sch kwargs w ''AUDIO_EXTENSIONS'' AUDIO_EXTENSIONS_default of
        Inl e \<Rightarrow> Inl e
      | Inr audio \<Rightarrow>
     (case validate_set sch kwargs w ''VIDEO_EXTENSIONS'' VIDEO_EXTENSIONS_default of
        Inl e \<Rightarrow> Inl e
      | Inr video \<Rightarrow>
          Inr \<lparr>HF_TOKEN = init_or_env kwargs w ''HF_TOKEN'',
               WHISPER_MODEL = model,
               DEFAULT_LANG = validate_str (init_or_env kwargs w ''DEFAULT_LANG'') ''en'',
               DEVICE = device,
               COMPUTE_TYPE = compute_type,
               AUDIO_EXTENSIONS = audio,
               VIDEO_EXTENSIONS = video\<rparr>)))))"

definition WhisperSettings_kwargs :: "schemas \<Rightarrow> env_vars \<Rightarrow> world \<Rightarrow> error + WhisperSettings" where
  "WhisperSettings_kwargs sch kwargs w =
     (case WhisperSettings_populate sch kwargs w of
        Inl e \<Rightarrow> Inl e
      | Inr self \<Rightarrow> Inr (validate_compute_type_for_cpu self))"

definition WhisperSettings_fields :: "schemas \<Rightarrow> world \<Rightarrow> error + WhisperSettings" where
  "WhisperSettings_fields sch w = WhisperSettings_populate sch [] w"

definition WhisperSettings_init :: "schemas \<Rightarrow> world \<Rightarrow> error + WhisperSettings" where
  "WhisperSettings_init sch w =
     (case WhisperSettings_fields sch w of
        Inl e \<Rightarrow> Inl e
      | Inr self \<Rightarrow> Inr (validate_compute_type_for_cpu self))"

subsection \<open>LoggingSettings\<close>

record LoggingSettings =
  LOG_LEVEL :: string
  LOG_FORMAT :: string
  FILTER_WARNING :: bool

definition LoggingSettings_kwargs :: "env_vars \<Rightarrow> world \<Rightarrow> error + LoggingSettings" where
  "LoggingSettings_kwargs kwargs w =
     (if unknown_kwargs [''LOG_LEVEL'', ''LOG_FORMAT'', ''FILTER_WARNING''] kwargs
      then Inl ValidationError
      else
        case validate_bool (init_or_env kwargs w ''FILTER_WARNING'') True of
          Inl e \<Rightarrow> Inl e
        | Inr filter_warning \<Rightarrow>
            Inr \<lparr>LOG_LEVEL = validate_str (init_or_env kwargs w ''LOG_LEVEL'') ''INFO'',
                 LOG_FORMAT = validate_str (init_or_env kwargs w ''LOG_FORMAT'') ''text'',
                 FILTER_WARNING = filter_warning\<rparr>)"

definition LoggingSettings_init :: "world \<Rightarrow> error + LoggingSettings" where
  "LoggingSettings_init w = LoggingSettings_kwargs [] w"

subsection \<open>Settings\<close>

record Settings =
  ENVIRONMENT :: string
  DEV :: bool
  database :: DatabaseSettings
  whisper :: WhisperSettings
  logging :: LoggingSettings

definition Settings_model_config :: SettingsConfigDict where
  "Settings_model_config =
     \<lparr>env_file = Some ''.env'', env_file_encoding = Some ''utf-8'', case_sensitive = True,
      extra = ''ignore'', env_nested_delimiter = Some ''__''\<rparr>"

text \<open>The field validator of \<open>ENVIRONMENT\<close>, run on the raw value before type validation.\<close>

definition normalize_environment :: "string \<Rightarrow> string" where
  "normalize_environment v = (if v \<noteq> [] then py_lower v else ''production'')"

text \<open>
  A nested field of Settings. With no data for it in the sources of Settings the field
  takes its default: the default factory calls the class with no argument, and what that
  call raises leaves the construction of Settings at once. With data the class is called
  with them as keyword arguments by the validation of the field, which records what the
  call raises as a validation error of the field and goes on.
\<close>

datatype 'a outcome = Raised error | Invalid | Valid 'a

definition nested_field :: "env_vars \<Rightarrow> (env_vars \<Rightarrow> error + 'a) \<Rightarrow> 'a outcome" where
  "nested_field kwargs call =
     (if kwargs = [] then (case call [] of Inl e \<Rightarrow> Raised e | Inr x \<Rightarrow> Valid x)
      else (case call kwargs of Inl e \<Rightarrow> Invalid | Inr x \<Rightarrow> Valid x))"

text \<open>
  The nested source of Settings decodes a variable that addresses a set-valued member of
  the whisper group, unless it is empty; one that cannot be decoded ends the construction
  while the sources are read.
\<close>

definition nested_decode_fails :: "schemas \<Rightarrow> env_vars \<Rightarrow> bool" where
  "nested_decode_fails sch vars =
     list_ex (\<lambda>(k, v). k \<in> set [''AUDIO_EXTENSIONS'', ''VIDEO_EXTENSIONS''] \<and> v \<noteq> []
                \<and> (case str_set_of_json sch v of Inl SettingsError \<Rightarrow> True | _ \<Rightarrow> False))
       (nested_vars Settings_model_config ''whisper'' vars)"

definition raised :: "'a outcome \<Rightarrow> error option" where
  "raised r = (case r of Raised e \<Rightarrow> Some e | _ \<Rightarrow> None)"

definition Settings_init :: "schemas \<Rightarrow> world \<Rightarrow> error + Settings" where
  "Settings_init sch w =
     (let cfg = Settings_model_config;
          db = nested_field (nested_kwargs cfg w ''database'')
                 (\<lambda>kwargs. DatabaseSettings_kwargs kwargs w);
          wh = nested_field (nested_kwargs cfg w ''whisper'')
                 (\<lambda>kwargs. WhisperSettings_kwargs sch kwargs w);
          lg = nested_field (nested_kwargs cfg w ''logging'')
                 (\<lambda>kwargs. LoggingSettings_kwargs kwargs w)
      in
      if nested_decode_fails sch (environ w)
         \<or> (case dotenv w of None \<Rightarrow> False | Some vars \<Rightarrow> nested_decode_fails sch vars)
      then Inl SettingsError
      else
      case raised db of Some e \<Rightarrow> Inl e | None \<Rightarrow>
     (case raised wh of Some e \<Rightarrow> Inl e | None \<Rightarrow>
     (case raised lg of Some e \<Rightarrow> Inl e | None \<Rightarrow>
     (case (validate_bool (field_value cfg w ''DEV'') False, db, wh, lg) of
        (Inr dev, Valid d, Valid h, Valid l) \<Rightarrow>
          Inr \<lparr>ENVIRONMENT =
                 normalize_environment
                   (validate_str (field_value cfg w ''ENVIRONMENT'') ''production''),
               DEV = dev, database = d, whisper = h, logging = l\<rparr>
      | _ \<Rightarrow> Inl ValidationError))))"

section \<open>Restrictions on the inputs\<close>

text \<open>
  \<open>plain_vars\<close> describes the inputs in which every field of a group is populated from
  the flat variable of the field or from its default: no variable is named after a nested
  group (\<open>database\<close>, \<open>whisper\<close>, \<open>logging\<close>) or addresses a member of a group through the
  delimiter \<open>__\<close>, and no variable of the process environment is named after a set of
  extensions.
\<close>

definition complex_name :: "string \<Rightarrow> bool" where
  "complex_name k =
     list_ex (\<lambda>g. k = g \<or> take (length g + 2) k = g @ ''__'')
       [''database'', ''whisper'', ''logging'']"

definition plain_vars :: "world \<Rightarrow> bool" where
  "plain_vars w =
     (list_all (\<lambda>(k, v). \<not> complex_name k
                 \<and> py_lower k \<noteq> ''audio_extensions'' \<and> py_lower k \<noteq> ''video_extensions'')
        (environ w)
      \<and> (case dotenv w of
           None \<Rightarrow> True
         | Some vars \<Rightarrow> list_all (\<lambda>(k, v). \<not> complex_name k) vars))"

text \<open>
  \<open>string_vars\<close> describes the inputs in which every variable that reaches a group holds
  a plain string for one of its members. It leaves out what the loader above does not
  cover, a variable named after a whole group, which holds a JSON document for the group,
  and a variable that addresses below a member through a second delimiter; and it leaves
  out a variable that addresses a set-valued member, which holds a JSON document.
\<close>

definition string_name :: "string \<Rightarrow> bool" where
  "string_name k =
     list_all (\<lambda>g. k \<noteq> g
                \<and> (take (length g + 2) k = g @ ''__'' \<longrightarrow>
                     \<not> contains (drop (length g + 2) k) ''__''
                     \<and> drop (length g + 2) k \<noteq> ''AUDIO_EXTENSIONS''
                     \<and> drop (length g + 2) k \<noteq> ''VIDEO_EXTENSIONS''))
       [''database'', ''whisper'', ''logging'']"

definition string_vars :: "world \<Rightarrow> bool" where
  "string_vars w =
     (list_all (\<lambda>(k, v). string_name k) (environ w)
      \<and> (case dotenv w of
           None \<Rightarrow> True
         | Some vars \<Rightarrow> list_all (\<lambda>(k, v). string_name k) vars))"

section \<open>The cached accessor\<close>

text \<open>
  \<open>get_settings\<close> is wrapped by \<open>lru_cache\<close> and takes no argument, so the cache has at
  most one entry. Instances live in a store and are named by their address (the index in
  the store); the cache entry is the address of the instance the first successful call
  built. A call that raises leaves the cache as it was.
\<close>

record state =
  heap :: "Settings list"
  cache :: "nat option"

definition initial_state :: state where
  "initial_state = \<lparr>heap = [], cache = None\<rparr>"

definition get_settings :: "schemas \<Rightarrow> world \<Rightarrow> state \<Rightarrow> (error + nat) \<times> state" where
  "get_settings sch w st =
     (case cache st of
        Some r \<Rightarrow> (Inr r, st)
      | None \<Rightarrow>
          (case Settings_init sch w of
             Inl e \<Rightarrow> (Inl e, st)
           | Inr s \<Rightarrow>
               (Inr (length (heap st)),
                st\<lparr>heap := heap st @ [s], cache := Some (length (heap st))\<rparr>)))"

section \<open>The guard around the import of torch\<close>

text \<open>
  An exception is given by the names of the classes it is an instance of (its own class
  first), by \<open>str(e)\<close> and by its \<open>__cause__\<close>.
\<close>

datatype exc = Exc (exc_classes: "string list") (exc_str: string) (exc_cause: "exc option")

definition environ_get :: "env_vars \<Rightarrow> string \<Rightarrow> string \<Rightarrow> string" where
  "environ_get env k dflt = (case dict_get env k of None \<Rightarrow> dflt | Some v \<Rightarrow> v)"

definition nccl_message :: "string \<Rightarrow> string \<Rightarrow> string \<Rightarrow> string" where
  "nccl_message error_msg ld_preload ld_library_path =
     ''PyTorch import failed due to NCCL compatibility issue: '' @ error_msg @ ''\<newline>''
     @ ''This usually indicates that PyTorch 2.8+ requires NCCL 2.18+ with the 'ncclGroupSimulateEnd' symbol.\<newline>''
     @ ''Diagnostic information:\<newline>''
     @ ''  LD_PRELOAD: '' @ ld_preload @ ''\<newline>''
     @ ''  LD_LIBRARY_PATH: '' @ ld_library_path @ ''\<newline>''
     @ ''  Python attempted to set LD_PRELOAD but it may be too late.\<newline>''
     @ ''Please ensure the startup script correctly sets LD_PRELOAD to a compatible NCCL library.''"

text \<open>The \<open>except\<close> clause matches an instance of one of the three classes it lists.\<close>

definition handled :: "exc \<Rightarrow> bool" where
  "handled e =
     list_ex (\<lambda>c. c \<in> set (exc_classes e)) [''ImportError'', ''OSError'', ''RuntimeError'']"

text \<open>
  The \<open>try\<close> statement, given the process environment at that moment and the outcome of
  \<open>import torch\<close> (\<open>None\<close> when it succeeds): the exception that leaves the statement, or
  \<open>None\<close> when the module goes on.
\<close>

definition import_torch :: "env_vars \<Rightarrow> exc option \<Rightarrow> exc option" where
  "import_torch env outcome =
     (case outcome of
        None \<Rightarrow> None
      | Some e \<Rightarrow>
          if handled e then
            (let error_msg = exc_str e in
             if contains error_msg ''ncclGroupSimulateEnd'' \<or> contains error_msg ''undefined symbol''
             then
               (let ld_preload = environ_get env ''LD_PRELOAD'' ''not set'';
                    ld_library_path = environ_get env ''LD_LIBRARY_PATH'' ''not set''
                in Some (Exc [''ImportError'', ''Exception'', ''BaseException'']
                           (nccl_message error_msg ld_preload ld_library_path) (Some e)))
             else Some e)
          else Some e)"

section \<open>Notions used in the statements\<close>


text \<open>A sequence of calls of the accessor, each under the inputs of its moment.\<close>

fun calls :: "schemas \<Rightarrow> world list \<Rightarrow> state \<Rightarrow> (error + nat) list" where
  "calls sch [] st = []"
| "calls sch (w # ws) st = (case get_settings sch w st of (r, st') \<Rightarrow> r # calls sch ws st')"

text \<open>
  The inputs with every conflict between the environment file and the process
  environment removed from the file: the file keeps the keys that are not live variables.
\<close>

definition without_conflicts :: "world \<Rightarrow> world" where
  "without_conflicts w =
     w\<lparr>dotenv := map_option (filter (\<lambda>(k, v). dict_get (environ w) k = None)) (dotenv w)\<rparr>"

text \<open>
  The inputs with one more variable in the process environment, iterated after the
  others.
\<close>

definition with_variable :: "world \<Rightarrow> string \<Rightarrow> string \<Rightarrow> world" where
  "with_variable w k v = w\<lparr>environ := environ w @ [(k, v)]\<rparr>"

section \<open>Facts about lookups\<close>

lemma dict_get_None_iff: "dict_get d k = None \<longleftrightarrow> k \<notin> fst ` set d"
  by (simp add: dict_get_def map_of_eq_None_iff)

lemma dict_get_append: "dict_get (d @ [(k, v)]) k' = (if k' = k then Some v else dict_get d k')"
  by (simp add: dict_get_def)

lemma dict_get_app:
  "dict_get (a @ b) k = (case dict_get b k of Some v \<Rightarrow> Some v | None \<Rightarrow> dict_get a k)"
  by (simp add: dict_get_def map_add_def split: option.splits)

lemma dict_get_Nil: "dict_get [] k = None"
  by (simp add: dict_get_def)

lemma dict_get_member:
  assumes "distinct (map fst d)" and "(k, v) \<in> set d"
  shows "dict_get d k = Some v"
proof -
  have "distinct (map fst (rev d))" using assms(1) by (simp add: rev_map [symmetric])
  moreover have "(k, v) \<in> set (rev d)" using assms(2) by simp
  ultimately show ?thesis unfolding dict_get_def by (rule map_of_is_SomeI)
qed

lemma field_value_Settings:
  "field_value Settings_model_config w field =
     (case dict_get (environ w) field of
        Some v \<Rightarrow> Some v
      | None \<Rightarrow> (case dotenv w of None \<Rightarrow> None | Some vars \<Rightarrow> dict_get vars field))"
  by (simp add: field_value_def source_value_def parse_env_vars_def env_name_def
      Settings_model_config_def split: option.splits)

lemma field_value_BaseSettings:
  "field_value BaseSettings_model_config w field =
     dict_get (map (\<lambda>(k, v). (py_lower k, v)) (environ w)) (py_lower field)"
  by (simp add: field_value_def source_value_def parse_env_vars_def env_name_def
      BaseSettings_model_config_def split: option.splits)

text \<open>A member of the data of a nested field is found under its full name.\<close>

lemma map_of_strip_prefix:
  "map_of (map (\<lambda>(k, v). (drop (length p) k, v)) (filter (\<lambda>(k, v). take (length p) k = p) xs)) m
     = map_of xs (p @ m)"
proof (induction xs)
  case Nil
  then show ?case by simp
next
  case (Cons x xs)
  obtain k v where x: "x = (k, v)" by (cases x)
  show ?case
  proof (cases "k = p @ m")
    case True
    then show ?thesis using x by simp
  next
    case False
    show ?thesis
    proof (cases "take (length p) k = p")
      case t: True
      then have "k = p @ drop (length p) k" by (metis append_take_drop_id)
      with False have "drop (length p) k \<noteq> m" by auto
      with t False Cons.IH x show ?thesis by simp
    next
      case f: False
      with False Cons.IH x show ?thesis by simp
    qed
  qed
qed

lemma dict_get_nested_vars:
  "dict_get (nested_vars Settings_model_config g vars) m = dict_get vars (g @ ''__'' @ m)"
proof -
  have "dict_get (nested_vars Settings_model_config g vars) m
      = map_of (map (\<lambda>(k, v). (drop (length (g @ ''__'')) k, v))
          (filter (\<lambda>(k, v). take (length (g @ ''__'')) k = g @ ''__'') (rev vars))) m"
    by (simp add: nested_vars_def Settings_model_config_def env_name_def parse_env_vars_def
        dict_get_def rev_map rev_filter)
  also have "\<dots> = map_of (rev vars) ((g @ ''__'') @ m)"
    by (rule map_of_strip_prefix)
  finally show ?thesis by (simp add: dict_get_def)
qed

lemma dict_get_nested_kwargs:
  "dict_get (nested_kwargs Settings_model_config w g) m
     = field_value Settings_model_config w (g @ ''__'' @ m)"
proof -
  have ef: "env_file Settings_model_config = Some ''.env''"
    by (simp add: Settings_model_config_def)
  show ?thesis
    unfolding nested_kwargs_def ef
    by (simp add: dict_get_app dict_get_nested_vars field_value_Settings dict_get_Nil
        split: option.splits)
qed

text \<open>A group called with keyword arguments reads them through lookups only.\<close>

lemma unknown_kwargs_iff:
  "unknown_kwargs names kwargs \<longleftrightarrow> (\<exists>k. dict_get kwargs k \<noteq> None \<and> k \<notin> set names)"
  by (force simp: unknown_kwargs_def list_ex_iff dict_get_None_iff)

lemma Nil_iff_dict_get: "kwargs = [] \<longleftrightarrow> (\<forall>k. dict_get kwargs k = None)"
proof (cases kwargs)
  case Nil
  then show ?thesis by (simp add: dict_get_Nil)
next
  case (Cons x xs)
  then have "fst x \<in> fst ` set kwargs" by simp
  then have "dict_get kwargs (fst x) \<noteq> None" by (simp add: dict_get_None_iff)
  moreover have "kwargs \<noteq> []" using Cons by simp
  ultimately show ?thesis by auto
qed

lemma init_or_env_Nil:
  "init_or_env [] w field = field_value BaseSettings_model_config w field"
  by (simp add: init_or_env_def dict_get_Nil)


lemma same_lookups:
  assumes "\<And>k. dict_get kwargs k = dict_get kwargs' k"
  shows "unknown_kwargs names kwargs = unknown_kwargs names kwargs'"
    and "(kwargs = []) = (kwargs' = [])"
    and "init_or_env kwargs w field = init_or_env kwargs' w field"
    and "validate_set sch kwargs w field dflt = validate_set sch kwargs' w field dflt"
  using assms
  by (simp_all add: unknown_kwargs_iff Nil_iff_dict_get init_or_env_def validate_set_def)

lemma DatabaseSettings_kwargs_cong:
  assumes "\<And>k. dict_get kwargs k = dict_get kwargs' k"
  shows "DatabaseSettings_kwargs kwargs w = DatabaseSettings_kwargs kwargs' w"
  unfolding DatabaseSettings_kwargs_def
    same_lookups(1) [OF assms] same_lookups(3) [OF assms] ..

lemma LoggingSettings_kwargs_cong:
  assumes "\<And>k. dict_get kwargs k = dict_get kwargs' k"
  shows "LoggingSettings_kwargs kwargs w = LoggingSettings_kwargs kwargs' w"
  unfolding LoggingSettings_kwargs_def
    same_lookups(1) [OF assms] same_lookups(3) [OF assms] ..

lemma WhisperSettings_kwargs_cong:
  assumes "\<And>k. dict_get kwargs k = dict_get kwargs' k"
  shows "WhisperSettings_kwargs sch kwargs w = WhisperSettings_kwargs sch kwargs' w"
  unfolding WhisperSettings_kwargs_def WhisperSettings_populate_def
    same_lookups(1) [OF assms] same_lookups(3) [OF assms] same_lookups(4) [OF assms] ..

lemma nested_field_cong:
  assumes "\<And>k. dict_get kwargs k = dict_get kwargs' k" and "call kwargs = call' kwargs'"
    and "call [] = call' []"
  shows "nested_field kwargs call = nested_field kwargs' call'"
  using assms(2,3) same_lookups(2) [OF assms(1)] by (simp add: nested_field_def)

lemma nested_field_Valid:
  "nested_field kwargs call = Valid x \<Longrightarrow> call kwargs = Inr x"
  by (auto simp: nested_field_def split: if_splits sum.splits)

lemma nested_field_Nil:
  "nested_field [] call = (case call [] of Inl e \<Rightarrow> Raised e | Inr x \<Rightarrow> Valid x)"
  by (simp add: nested_field_def)

text \<open>Inputs with flat variables only give the nested fields no data.\<close>

lemma nested_vars_plain:
  assumes "list_all (\<lambda>(k, v). \<not> complex_name k) vars"
    and "g \<in> set [''database'', ''whisper'', ''logging'']"
  shows "nested_vars Settings_model_config g vars = []"
proof -
  have "\<not> (take (length (g @ ''__'')) k = g @ ''__'')" if "(k, v) \<in> set vars" for k v
  proof -
    from assms(1) that have "\<not> complex_name k" by (auto simp: list_all_iff)
    with assms(2) show ?thesis by (auto simp: complex_name_def)
  qed
  then have "filter (\<lambda>(k, v). take (length (g @ ''__'')) k = g @ ''__'') vars = []"
    by (auto simp: filter_empty_conv)
  then show ?thesis
    by (simp add: nested_vars_def Settings_model_config_def env_name_def parse_env_vars_def)
qed

lemma nested_kwargs_plain:
  assumes "plain_vars w" and "g \<in> set [''database'', ''whisper'', ''logging'']"
  shows "nested_kwargs Settings_model_config w g = []"
proof -
  have e: "list_all (\<lambda>(k, v). \<not> complex_name k) (environ w)"
    using assms(1) by (auto simp: plain_vars_def list_all_iff)
  have f: "list_all (\<lambda>(k, v). \<not> complex_name k) vars" if "dotenv w = Some vars" for vars
    using assms(1) that by (simp add: plain_vars_def)
  show ?thesis
    using nested_vars_plain [OF e assms(2)] nested_vars_plain [OF f assms(2)]
    by (simp add: nested_kwargs_def split: option.splits)
qed

lemma nested_decode_fails_plain:
  assumes "list_all (\<lambda>(k, v). \<not> complex_name k) vars"
  shows "\<not> nested_decode_fails sch vars"
  using nested_vars_plain [OF assms, of "''whisper''"] by (simp add: nested_decode_fails_def)

lemma nested_decode_fails_plain_vars:
  assumes "plain_vars w"
  shows "\<not> nested_decode_fails sch (environ w)"
    and "dotenv w = Some vars \<Longrightarrow> \<not> nested_decode_fails sch vars"
proof -
  have e: "list_all (\<lambda>(k, v). \<not> complex_name k) (environ w)"
    using assms by (auto simp: plain_vars_def list_all_iff)
  then show "\<not> nested_decode_fails sch (environ w)" by (rule nested_decode_fails_plain)
  show "\<not> nested_decode_fails sch vars" if "dotenv w = Some vars"
  proof -
    from assms that have "list_all (\<lambda>(k, v). \<not> complex_name k) vars"
      by (simp add: plain_vars_def)
    then show ?thesis by (rule nested_decode_fails_plain)
  qed
qed

lemma extensions_not_supplied:
  assumes "plain_vars w"
  shows "field_value BaseSettings_model_config w ''AUDIO_EXTENSIONS'' = None"
    and "field_value BaseSettings_model_config w ''VIDEO_EXTENSIONS'' = None"
proof -
  have low: "py_lower ''AUDIO_EXTENSIONS'' = ''audio_extensions''"
    "py_lower ''VIDEO_EXTENSIONS'' = ''video_extensions''"
    by (simp_all add: py_lower_def char_lower_def)
  have "py_lower k \<noteq> ''audio_extensions'' \<and> py_lower k \<noteq> ''video_extensions''"
    if "(k, v) \<in> set (environ w)" for k v
    using assms that by (auto simp: plain_vars_def list_all_iff)
  then show "field_value BaseSettings_model_config w ''AUDIO_EXTENSIONS'' = None"
    and "field_value BaseSettings_model_config w ''VIDEO_EXTENSIONS'' = None"
    by (force simp: field_value_BaseSettings dict_get_None_iff low)+
qed

lemma sets_plain:
  assumes "plain_vars w"
  shows "\<not> decode_fails sch w ''AUDIO_EXTENSIONS''" and "\<not> decode_fails sch w ''VIDEO_EXTENSIONS''"
    and "validate_set sch [] w ''AUDIO_EXTENSIONS'' dflt = Inr dflt"
    and "validate_set sch [] w ''VIDEO_EXTENSIONS'' dflt = Inr dflt"
  using extensions_not_supplied [OF assms]
  by (simp_all add: decode_fails_def env_set_def validate_set_def dict_get_Nil)

text \<open>The class called with no argument.\<close>

lemma WhisperSettings_kwargs_Nil: "WhisperSettings_kwargs sch [] w = WhisperSettings_init sch w"
  by (simp add: WhisperSettings_kwargs_def WhisperSettings_init_def WhisperSettings_fields_def)

text \<open>What a populated WhisperSettings holds.\<close>

lemma WhisperSettings_populate_Inr:
  assumes "WhisperSettings_populate sch kwargs w = Inr self"
  shows "validate_enum (Device_values sch) (init_or_env kwargs w ''DEVICE'')
           (DEVICE_default_factory (cuda_is_available w)) = Inr (DEVICE self)"
    and "validate_enum (ComputeType_values sch) (init_or_env kwargs w ''COMPUTE_TYPE'')
           (COMPUTE_TYPE_default_factory (cuda_is_available w)) = Inr (COMPUTE_TYPE self)"
    and "DEFAULT_LANG self = validate_str (init_or_env kwargs w ''DEFAULT_LANG'') ''en''"
    and "validate_set sch kwargs w ''AUDIO_EXTENSIONS'' AUDIO_EXTENSIONS_default
           = Inr (AUDIO_EXTENSIONS self)"
    and "validate_set sch kwargs w ''VIDEO_EXTENSIONS'' VIDEO_EXTENSIONS_default
           = Inr (VIDEO_EXTENSIONS self)"
  using assms
  by (auto simp: WhisperSettings_populate_def split: if_splits sum.splits)



lemma LoggingSettings_kwargs_error:
  "LoggingSettings_kwargs kwargs w = Inl e \<Longrightarrow> e = ValidationError"
  by (auto simp: LoggingSettings_kwargs_def validate_bool_def
      split: if_splits sum.splits option.splits)

lemma validate_bool_error: "validate_bool raw dflt = Inl e \<Longrightarrow> e = ValidationError"
  by (auto simp: validate_bool_def split: option.splits)

lemma char_lower_not_upper: "char_lower c \<notin> set ''ABCDEFGHIJKLMNOPQRSTUVWXYZ''"
  by (simp add: char_lower_def)

lemma py_lower_not_upper: "c \<in> set (py_lower v) \<Longrightarrow> c \<notin> set ''ABCDEFGHIJKLMNOPQRSTUVWXYZ''"
  using char_lower_not_upper by (auto simp: py_lower_def)

lemma map_of_lower_keys:
  assumes "list_all (\<lambda>(k, v). py_lower k = py_lower field \<longrightarrow> k = field) xs"
  shows "map_of (map (\<lambda>(k, v). (py_lower k, v)) xs) (py_lower field) = map_of xs field"
  using assms by (induction xs) auto

lemma field_value_BaseSettings_exact:
  assumes "list_all (\<lambda>(k, v). py_lower k = py_lower field \<longrightarrow> k = field) (environ w)"
  shows "field_value BaseSettings_model_config w field = dict_get (environ w) field"
proof -
  from assms have "list_all (\<lambda>(k, v). py_lower k = py_lower field \<longrightarrow> k = field) (rev (environ w))"
    by (simp add: list_all_iff)
  from map_of_lower_keys [OF this] show ?thesis
    by (simp add: field_value_BaseSettings dict_get_def rev_map)
qed


section \<open>Facts about the construction of Settings\<close>

lemma Settings_init_Inr:
  assumes "Settings_init sch w = Inr s"
  shows "ENVIRONMENT s = normalize_environment
           (validate_str (field_value Settings_model_config w ''ENVIRONMENT'') ''production'')"
    and "validate_bool (field_value Settings_model_config w ''DEV'') False = Inr (DEV s)"
    and "DatabaseSettings_kwargs (nested_kwargs Settings_model_config w ''database'') w
           = Inr (database s)"
    and "WhisperSettings_kwargs sch (nested_kwargs Settings_model_config w ''whisper'') w
           = Inr (whisper s)"
    and "LoggingSettings_kwargs (nested_kwargs Settings_model_config w ''logging'') w
           = Inr (logging s)"
proof -
  let ?db = "nested_field (nested_kwargs Settings_model_config w ''database'')
               (\<lambda>kwargs. DatabaseSettings_kwargs kwargs w)"
  let ?wh = "nested_field (nested_kwargs Settings_model_config w ''whisper'')
               (\<lambda>kwargs. WhisperSettings_kwargs sch kwargs w)"
  let ?lg = "nested_field (nested_kwargs Settings_model_config w ''logging'')
               (\<lambda>kwargs. LoggingSettings_kwargs kwargs w)"
  from assms have r: "(case (validate_bool (field_value Settings_model_config w ''DEV'') False,
                 ?db, ?wh, ?lg) of
        (Inr dev, Valid d, Valid h, Valid l) \<Rightarrow>
          Inr \<lparr>ENVIRONMENT =
                 normalize_environment
                   (validate_str (field_value Settings_model_config w ''ENVIRONMENT'')
                      ''production''),
               DEV = dev, database = d, whisper = h, logging = l\<rparr>
      | _ \<Rightarrow> Inl ValidationError) = Inr s"
    by (simp add: Settings_init_def Let_def split: if_splits option.splits)
  then obtain dev d h l where v: "validate_bool (field_value Settings_model_config w ''DEV'') False
      = Inr dev" "?db = Valid d" "?wh = Valid h" "?lg = Valid l"
    by (auto split: sum.splits outcome.splits)
  with r have s: "s = \<lparr>ENVIRONMENT =
                 normalize_environment
                   (validate_str (field_value Settings_model_config w ''ENVIRONMENT'')
                      ''production''),
               DEV = dev, database = d, whisper = h, logging = l\<rparr>"
    by simp
  show "ENVIRONMENT s = normalize_environment
           (validate_str (field_value Settings_model_config w ''ENVIRONMENT'') ''production'')"
    using s by simp
  show "validate_bool (field_value Settings_model_config w ''DEV'') False = Inr (DEV s)"
    using s v(1) by simp
  show "DatabaseSettings_kwargs (nested_kwargs Settings_model_config w ''database'') w
           = Inr (database s)"
    using nested_field_Valid [OF v(2)] s by simp
  show "WhisperSettings_kwargs sch (nested_kwargs Settings_model_config w ''whisper'') w
           = Inr (whisper s)"
    using nested_field_Valid [OF v(3)] s by simp
  show "LoggingSettings_kwargs (nested_kwargs Settings_model_config w ''logging'') w
           = Inr (logging s)"
    using nested_field_Valid [OF v(4)] s by simp
qed

lemma Settings_init_plain:
  assumes "plain_vars w"
  shows "Settings_init sch w =
     (case DatabaseSettings_init w of Inl e \<Rightarrow> Inl e | Inr d \<Rightarrow>
     (case WhisperSettings_init sch w of Inl e \<Rightarrow> Inl e | Inr h \<Rightarrow>
     (case LoggingSettings_init w of Inl e \<Rightarrow> Inl e | Inr l \<Rightarrow>
     (case validate_bool (field_value Settings_model_config w ''DEV'') False of
        Inl e \<Rightarrow> Inl ValidationError
      | Inr dev \<Rightarrow>
          Inr \<lparr>ENVIRONMENT =
                 normalize_environment
                   (validate_str (field_value Settings_model_config w ''ENVIRONMENT'')
                      ''production''),
               DEV = dev, database = d, whisper = h, logging = l\<rparr>))))"
proof -
  have k: "nested_kwargs Settings_model_config w ''database'' = []"
    "nested_kwargs Settings_model_config w ''whisper'' = []"
    "nested_kwargs Settings_model_config w ''logging'' = []"
    using nested_kwargs_plain [OF assms] by simp_all
  have n: "\<not> (nested_decode_fails sch (environ w)
         \<or> (case dotenv w of None \<Rightarrow> False | Some vars \<Rightarrow> nested_decode_fails sch vars))"
    using nested_decode_fails_plain_vars [OF assms, where sch = sch] by (simp split: option.splits)
  show ?thesis
    unfolding Settings_init_def Let_def k nested_field_Nil
    using n
    by (simp add: raised_def DatabaseSettings_init_def LoggingSettings_init_def
        WhisperSettings_kwargs_Nil split: sum.splits)
qed

lemma plain_vars_Settings_init_Inr:
  assumes "plain_vars w" and "Settings_init sch w = Inr s"
  shows "DatabaseSettings_init w = Inr (database s)"
    and "WhisperSettings_init sch w = Inr (whisper s)"
    and "LoggingSettings_init w = Inr (logging s)"
  using assms(2) unfolding Settings_init_plain [OF assms(1)]
  by (auto split: sum.splits)

text \<open>Removing from the file the keys that are live variables.\<close>

lemma map_of_filter_key:
  "map_of (filter (\<lambda>(k, v). P k) xs) k = (if P k then map_of xs k else None)"
  by (induction xs) auto

lemma dict_get_filter:
  "dict_get (filter (\<lambda>(k, v). P k) d) k = (if P k then dict_get d k else None)"
  unfolding dict_get_def rev_filter by (rule map_of_filter_key)

lemma field_value_without_conflicts:
  "field_value Settings_model_config (without_conflicts w) field =
   field_value Settings_model_config w field"
  by (auto simp: field_value_Settings without_conflicts_def dict_get_filter split: option.splits)

lemma field_value_BaseSettings_without_conflicts:
  "field_value BaseSettings_model_config (without_conflicts w) field =
   field_value BaseSettings_model_config w field"
  by (simp add: field_value_BaseSettings without_conflicts_def)

lemma cuda_is_available_without_conflicts:
  "cuda_is_available (without_conflicts w) = cuda_is_available w"
  by (simp add: without_conflicts_def)

lemma groups_without_conflicts:
  "DatabaseSettings_kwargs kwargs (without_conflicts w) = DatabaseSettings_kwargs kwargs w"
  "WhisperSettings_kwargs sch kwargs (without_conflicts w) = WhisperSettings_kwargs sch kwargs w"
  "LoggingSettings_kwargs kwargs (without_conflicts w) = LoggingSettings_kwargs kwargs w"
  unfolding DatabaseSettings_kwargs_def WhisperSettings_kwargs_def WhisperSettings_populate_def
    LoggingSettings_kwargs_def init_or_env_def validate_set_def decode_fails_def env_set_def
    field_value_BaseSettings_without_conflicts cuda_is_available_without_conflicts
  by (rule refl)+

lemma nested_kwargs_without_conflicts:
  "dict_get (nested_kwargs Settings_model_config (without_conflicts w) g) k
     = dict_get (nested_kwargs Settings_model_config w g) k"
  by (simp add: dict_get_nested_kwargs field_value_without_conflicts)

lemma nested_field_without_conflicts:
  "nested_field (nested_kwargs Settings_model_config (without_conflicts w) ''database'')
       (\<lambda>kwargs. DatabaseSettings_kwargs kwargs (without_conflicts w))
     = nested_field (nested_kwargs Settings_model_config w ''database'')
         (\<lambda>kwargs. DatabaseSettings_kwargs kwargs w)"
  "nested_field (nested_kwargs Settings_model_config (without_conflicts w) ''whisper'')
       (\<lambda>kwargs. WhisperSettings_kwargs sch kwargs (without_conflicts w))
     = nested_field (nested_kwargs Settings_model_config w ''whisper'')
         (\<lambda>kwargs. WhisperSettings_kwargs sch kwargs w)"
  "nested_field (nested_kwargs Settings_model_config (without_conflicts w) ''logging'')
       (\<lambda>kwargs. LoggingSettings_kwargs kwargs (without_conflicts w))
     = nested_field (nested_kwargs Settings_model_config w ''logging'')
         (\<lambda>kwargs. LoggingSettings_kwargs kwargs w)"
proof -
  show "nested_field (nested_kwargs Settings_model_config (without_conflicts w) ''database'')
       (\<lambda>kwargs. DatabaseSettings_kwargs kwargs (without_conflicts w))
     = nested_field (nested_kwargs Settings_model_config w ''database'')
         (\<lambda>kwargs. DatabaseSettings_kwargs kwargs w)"
    by (rule nested_field_cong)
      (simp_all add: nested_kwargs_without_conflicts groups_without_conflicts
        DatabaseSettings_kwargs_cong [OF nested_kwargs_without_conflicts])
  show "nested_field (nested_kwargs Settings_model_config (without_conflicts w) ''whisper'')
       (\<lambda>kwargs. WhisperSettings_kwargs sch kwargs (without_conflicts w))
     = nested_field (nested_kwargs Settings_model_config w ''whisper'')
         (\<lambda>kwargs. WhisperSettings_kwargs sch kwargs w)"
    by (rule nested_field_cong)
      (simp_all add: nested_kwargs_without_conflicts groups_without_conflicts
        WhisperSettings_kwargs_cong [OF nested_kwargs_without_conflicts])
  show "nested_field (nested_kwargs Settings_model_config (without_conflicts w) ''logging'')
       (\<lambda>kwargs. LoggingSettings_kwargs kwargs (without_conflicts w))
     = nested_field (nested_kwargs Settings_model_config w ''logging'')
         (\<lambda>kwargs. LoggingSettings_kwargs kwargs w)"
    by (rule nested_field_cong)
      (simp_all add: nested_kwargs_without_conflicts groups_without_conflicts
        LoggingSettings_kwargs_cong [OF nested_kwargs_without_conflicts])
qed

text \<open>Variables that hold plain strings are not decoded by the nested source.\<close>

lemma nested_decode_fails_string:
  assumes "list_all (\<lambda>(k, v). string_name k) vars"
  shows "\<not> nested_decode_fails sch vars"
proof
  assume "nested_decode_fails sch vars"
  then obtain m v where mv: "(m, v) \<in> set (nested_vars Settings_model_config ''whisper'' vars)"
    and m: "m = ''AUDIO_EXTENSIONS'' \<or> m = ''VIDEO_EXTENSIONS''"
    by (auto simp: nested_decode_fails_def list_ex_iff)
  from mv obtain k where k: "(k, v) \<in> set vars" "take 9 k = ''whisper__''" "m = drop 9 k"
    by (auto simp: nested_vars_def Settings_model_config_def env_name_def parse_env_vars_def
        eval_nat_numeral)
  from assms k(1) have "string_name k" by (auto simp: list_all_iff)
  with k(2,3) m show False by (simp add: string_name_def eval_nat_numeral)
qed

lemma string_vars_without_conflicts: "string_vars w \<Longrightarrow> string_vars (without_conflicts w)"
  by (auto simp: string_vars_def without_conflicts_def list_all_iff split: option.splits)

lemma string_vars_decode:
  assumes "string_vars w"
  shows "\<not> (nested_decode_fails sch (environ w)
           \<or> (case dotenv w of None \<Rightarrow> False | Some vars \<Rightarrow> nested_decode_fails sch vars))"
  using assms by (auto simp: string_vars_def nested_decode_fails_string split: option.splits)

lemma Settings_init_without_conflicts:
  assumes "string_vars w"
  shows "Settings_init sch (without_conflicts w) = Settings_init sch w"
proof -
  have a: "(nested_decode_fails sch (environ (without_conflicts w))
           \<or> (case dotenv (without_conflicts w) of None \<Rightarrow> False
              | Some vars \<Rightarrow> nested_decode_fails sch vars)) = False"
    using string_vars_decode [OF string_vars_without_conflicts [OF assms]] by simp
  have b: "(nested_decode_fails sch (environ w)
           \<or> (case dotenv w of None \<Rightarrow> False | Some vars \<Rightarrow> nested_decode_fails sch vars))
           = False"
    using string_vars_decode [OF assms] by simp
  show ?thesis
    unfolding Settings_init_def Let_def a b nested_field_without_conflicts
      field_value_without_conflicts ..
qed

section \<open>Facts about the groups and the accessor\<close>

lemma calls_cached: "cache st = Some r \<Longrightarrow> calls sch ws st = replicate (length ws) (Inr r)"
  by (induction ws) (auto simp: get_settings_def)

lemma field_value_Settings_with_variable:
  "k \<noteq> field \<Longrightarrow>
   field_value Settings_model_config (with_variable w k v) field
     = field_value Settings_model_config w field"
  by (simp add: field_value_Settings with_variable_def dict_get_append split: option.splits)

lemma field_value_BaseSettings_with_variable:
  "py_lower k = py_lower field \<Longrightarrow>
   field_value BaseSettings_model_config (with_variable w k v) field = Some v"
  by (simp add: field_value_BaseSettings with_variable_def dict_get_append)

lemma DatabaseSettings_init_Inr:
  assumes "DatabaseSettings_init w = Inr d"
  shows "DB_URL d = validate_str (field_value BaseSettings_model_config w ''DB_URL'')
                      ''sqlite:///records.db''"
  using assms
  by (auto simp: DatabaseSettings_init_def DatabaseSettings_kwargs_def init_or_env_Nil
      split: if_splits sum.splits)

lemma LoggingSettings_init_Inr:
  assumes "LoggingSettings_init w = Inr l"
  shows "LOG_LEVEL l = validate_str (field_value BaseSettings_model_config w ''LOG_LEVEL'') ''INFO''"
  using assms
  by (auto simp: LoggingSettings_init_def LoggingSettings_kwargs_def init_or_env_Nil
      split: if_splits sum.splits)

lemma validate_compute_type_for_cpu_fields:
  "AUDIO_EXTENSIONS (validate_compute_type_for_cpu self) = AUDIO_EXTENSIONS self"
  "VIDEO_EXTENSIONS (validate_compute_type_for_cpu self) = VIDEO_EXTENSIONS self"
  "DEFAULT_LANG (validate_compute_type_for_cpu self) = DEFAULT_LANG self"
  "DEVICE (validate_compute_type_for_cpu self) = DEVICE self"
  by (simp_all add: validate_compute_type_for_cpu_def)

lemma WhisperSettings_init_Inr:
  assumes "WhisperSettings_init sch w = Inr ws"
  obtains self where "WhisperSettings_fields sch w = Inr self"
    and "ws = validate_compute_type_for_cpu self"
  using assms by (auto simp: WhisperSettings_init_def split: sum.splits)

lemma WhisperSettings_init_DEFAULT_LANG:
  assumes "WhisperSettings_init sch w = Inr ws"
  shows "DEFAULT_LANG ws
           = validate_str (field_value BaseSettings_model_config w ''DEFAULT_LANG'') ''en''"
proof -
  from assms obtain self where f: "WhisperSettings_populate sch [] w = Inr self"
    and ws: "ws = validate_compute_type_for_cpu self"
    by (auto simp: WhisperSettings_fields_def elim: WhisperSettings_init_Inr)
  show ?thesis
    using WhisperSettings_populate_Inr(3) [OF f] ws
    by (simp add: validate_compute_type_for_cpu_fields init_or_env_Nil)
qed

lemma WhisperSettings_init_extensions:
  assumes "plain_vars w" and "WhisperSettings_init sch w = Inr ws"
  shows "AUDIO_EXTENSIONS ws = AUDIO_EXTENSIONS_default"
    and "VIDEO_EXTENSIONS ws = VIDEO_EXTENSIONS_default"
proof -
  from assms(2) obtain self where f: "WhisperSettings_populate sch [] w = Inr self"
    and ws: "ws = validate_compute_type_for_cpu self"
    by (auto simp: WhisperSettings_fields_def elim: WhisperSettings_init_Inr)
  show "AUDIO_EXTENSIONS ws = AUDIO_EXTENSIONS_default"
    using WhisperSettings_populate_Inr(4) [OF f] ws sets_plain(3) [OF assms(1)]
    by (simp add: validate_compute_type_for_cpu_fields)
  show "VIDEO_EXTENSIONS ws = VIDEO_EXTENSIONS_default"
    using WhisperSettings_populate_Inr(5) [OF f] ws sets_plain(4) [OF assms(1)]
    by (simp add: validate_compute_type_for_cpu_fields)
qed

text \<open>The definitions a concrete evaluation of the loader unfolds.\<close>

lemmas eval_defs = field_value_def source_value_def parse_env_vars_def env_name_def
  BaseSettings_model_config_def Settings_model_config_def dict_get_def py_lower_def char_lower_def
  validate_enum_def validate_str_def validate_bool_def str_to_bool_def app_schemas_def
  DEVICE_default_factory_def COMPUTE_TYPE_default_factory_def init_or_env_def unknown_kwargs_def
  env_set_def decode_fails_def kwarg_set_def validate_set_def

lemmas init_defs = Settings_init_def DatabaseSettings_init_def DatabaseSettings_kwargs_def
  WhisperSettings_init_def WhisperSettings_fields_def WhisperSettings_kwargs_def
  WhisperSettings_populate_def LoggingSettings_init_def LoggingSettings_kwargs_def
  validate_compute_type_for_cpu_def normalize_environment_def nested_field_def nested_kwargs_def
  nested_vars_def nested_decode_fails_def raised_def

lemma DatabaseSettings_kwargs_Inr:
  assumes "DatabaseSettings_kwargs kwargs w = Inr d"
  shows "DB_URL d = validate_str (init_or_env kwargs w ''DB_URL'') ''sqlite:///records.db''"
  using assms by (auto simp: DatabaseSettings_kwargs_def split: if_splits sum.splits)

lemma database_DB_URL:
  assumes "Settings_init sch w = Inr s"
  shows "DB_URL (database s)
           = validate_str
               (case field_value Settings_model_config w ''database__DB_URL'' of
                  Some v \<Rightarrow> Some v
                | None \<Rightarrow> field_value BaseSettings_model_config w ''DB_URL'')
               ''sqlite:///records.db''"
  using DatabaseSettings_kwargs_Inr [OF Settings_init_Inr(3) [OF assms]]
    dict_get_nested_kwargs [of w "''database''" "''DB_URL''"]
  by (simp add: init_or_env_def)

text \<open>
  The two sets of extensions are read from the process environment: the document \<open>[]\<close>
  gives the empty set, and a text that is no document ends the construction while the
  sources are read.
\<close>

lemma extensions_from_environment:
  "WhisperSettings_init app_schemas
     \<lparr>environ = [(''AUDIO_EXTENSIONS'', ''[]'')], dotenv = None, cuda_is_available = False\<rparr>
   = Inr \<lparr>HF_TOKEN = None, WHISPER_MODEL = tiny, DEFAULT_LANG = ''en'', DEVICE = cpu,
          COMPUTE_TYPE = int8, AUDIO_EXTENSIONS = {},
          VIDEO_EXTENSIONS = VIDEO_EXTENSIONS_default\<rparr>"
  "WhisperSettings_init app_schemas
     \<lparr>environ = [(''VIDEO_EXTENSIONS'', ''.mp4,.mov'')], dotenv = None,
      cuda_is_available = False\<rparr>
   = Inl SettingsError"
  by (simp_all add: init_defs eval_defs)

text \<open>
  So is a variable that addresses one of the sets in the nested form, by each source of
  Settings on its own: a text of the file that is no document ends the construction also
  when the variable is live, and without that key of the file the live document is the
  one stored.
\<close>

lemma nested_extensions_from_file:
  "Settings_init app_schemas
     \<lparr>environ = [(''whisper__AUDIO_EXTENSIONS'', ''[]'')],
      dotenv = Some [(''whisper__AUDIO_EXTENSIONS'', ''.mp3'')], cuda_is_available = False\<rparr>
   = Inl SettingsError"
  "Settings_init app_schemas
     \<lparr>environ = [(''whisper__AUDIO_EXTENSIONS'', ''[]'')],
      dotenv = Some [], cuda_is_available = False\<rparr>
   = Inr \<lparr>ENVIRONMENT = ''production'', DEV = False,
          database = \<lparr>DB_URL = ''sqlite:///records.db'', DB_ECHO = False\<rparr>,
          whisper = \<lparr>HF_TOKEN = None, WHISPER_MODEL = tiny, DEFAULT_LANG = ''en'',
                      DEVICE = cpu, COMPUTE_TYPE = int8, AUDIO_EXTENSIONS = {},
                      VIDEO_EXTENSIONS = VIDEO_EXTENSIONS_default\<rparr>,
          logging = \<lparr>LOG_LEVEL = ''INFO'', LOG_FORMAT = ''text'', FILTER_WARNING = True\<rparr>\<rparr>"
  by (simp_all add: init_defs eval_defs)

section \<open>WhisperSettings: the compute type on a CPU\<close>



section \<open>WhisperSettings: the allowed extensions\<close>

text \<open>
  C2. For every instance of WhisperSettings, \<open>ALLOWED_EXTENSIONS\<close> is the union of
  \<open>AUDIO_EXTENSIONS\<close> and \<open>VIDEO_EXTENSIONS\<close>. It is computed from the two fields at the
  access: it follows them when they are assigned anew, the model validator does not
  change it, and for an instance constructed from inputs in which no variable names
  one of the two sets it is the union of the two sets of the class body.
\<close>

theorem allowed_extensions_is_union:
  "ALLOWED_EXTENSIONS self = AUDIO_EXTENSIONS self \<union> VIDEO_EXTENSIONS self
   \<and> (\<forall>a v. ALLOWED_EXTENSIONS (self\<lparr>AUDIO_EXTENSIONS := a, VIDEO_EXTENSIONS := v\<rparr>) = a \<union> v)
   \<and> ALLOWED_EXTENSIONS (validate_compute_type_for_cpu self) = ALLOWED_EXTENSIONS self
   \<and> (plain_vars w \<and> WhisperSettings_init sch w = Inr self \<longrightarrow>
        ALLOWED_EXTENSIONS self = AUDIO_EXTENSIONS_default \<union> VIDEO_EXTENSIONS_default)"
proof -
  have "ALLOWED_EXTENSIONS self = AUDIO_EXTENSIONS_default \<union> VIDEO_EXTENSIONS_default"
    if "plain_vars w" "WhisperSettings_init sch w = Inr self"
    using WhisperSettings_init_extensions [OF that] by (simp add: ALLOWED_EXTENSIONS_def)
  then show ?thesis
    by (simp add: ALLOWED_EXTENSIONS_def validate_compute_type_for_cpu_fields)
qed

text \<open>The fourteen extensions of an instance built with \<open>DEVICE=cpu\<close>.\<close>

theorem allowed_extensions_is_union_witness:
  "plain_vars \<lparr>environ = [(''DEVICE'', ''cpu'')], dotenv = None, cuda_is_available = True\<rparr>
   \<and> (\<exists>ws. WhisperSettings_init app_schemas
              \<lparr>environ = [(''DEVICE'', ''cpu'')], dotenv = None, cuda_is_available = True\<rparr>
            = Inr ws
          \<and> ALLOWED_EXTENSIONS ws =
              {''.mp3'', ''.wav'', ''.awb'', ''.aac'', ''.ogg'', ''.oga'', ''.m4a'', ''.wma'',
               ''.amr'', ''.mp4'', ''.mov'', ''.avi'', ''.wmv'', ''.mkv''})"
proof -
  let ?w = "\<lparr>environ = [(''DEVICE'', ''cpu'')], dotenv = None, cuda_is_available = True\<rparr>"
  have p: "plain_vars ?w"
    by (simp add: plain_vars_def complex_name_def py_lower_def char_lower_def)
  obtain ws where i: "WhisperSettings_init app_schemas ?w = Inr ws"
    by (simp add: init_defs eval_defs)
  have "ALLOWED_EXTENSIONS ws = AUDIO_EXTENSIONS_default \<union> VIDEO_EXTENSIONS_default"
    using allowed_extensions_is_union [of ws ?w app_schemas] p i by blast
  then have "ALLOWED_EXTENSIONS ws =
              {''.mp3'', ''.wav'', ''.awb'', ''.aac'', ''.ogg'', ''.oga'', ''.m4a'', ''.wma'',
               ''.amr'', ''.mp4'', ''.mov'', ''.avi'', ''.wmv'', ''.mkv''}"
    by (auto simp: AUDIO_EXTENSIONS_default_def VIDEO_EXTENSIONS_default_def)
  with p i show ?thesis by blast
qed

section \<open>WhisperSettings: the defaults of device and compute type\<close>



section \<open>The accessor returns one instance\<close>

text \<open>
  C4. After a call of \<open>get_settings\<close> has returned an instance, every later call
  returns the same address and leaves the store and the cache as they are, whatever the
  inputs have become. When the cache was empty, that first call built the instance then:
  its address is a fresh one, and the store holds there what the construction of Settings
  returned.
\<close>

theorem get_settings_cached:
  assumes "get_settings sch w st = (Inr r, st1)"
  shows "cache st1 = Some r
       \<and> (\<forall>w'. get_settings sch w' st1 = (Inr r, st1))
       \<and> (\<forall>ws. calls sch ws st1 = replicate (length ws) (Inr r))
       \<and> (cache st = None \<longrightarrow>
            r = length (heap st) \<and> heap st1 = heap st @ [heap st1 ! r]
            \<and> Settings_init sch w = Inr (heap st1 ! r))"
proof -
  have c: "cache st1 = Some r"
    using assms by (auto simp: get_settings_def split: option.splits sum.splits)
  then have "\<forall>w'. get_settings sch w' st1 = (Inr r, st1)"
    by (simp add: get_settings_def)
  moreover have "\<forall>ws. calls sch ws st1 = replicate (length ws) (Inr r)"
    using c by (simp add: calls_cached)
  moreover have "cache st = None \<longrightarrow>
            r = length (heap st) \<and> heap st1 = heap st @ [heap st1 ! r]
            \<and> Settings_init sch w = Inr (heap st1 ! r)"
    using assms by (auto simp: get_settings_def split: option.splits sum.splits)
  ultimately show ?thesis using c by blast
qed

text \<open>
  The first call builds the instance at address 0; a second call, made after the
  environment has changed, returns address 0 and builds nothing.
\<close>

theorem get_settings_cached_witness:
  "fst (get_settings app_schemas
          \<lparr>environ = [(''ENVIRONMENT'', ''testing'')], dotenv = None, cuda_is_available = False\<rparr>
          initial_state) = Inr 0
   \<and> fst (get_settings app_schemas
          \<lparr>environ = [(''ENVIRONMENT'', ''development'')], dotenv = None, cuda_is_available = True\<rparr>
          (snd (get_settings app_schemas
                 \<lparr>environ = [(''ENVIRONMENT'', ''testing'')], dotenv = None,
                  cuda_is_available = False\<rparr>
                 initial_state))) = Inr 0
   \<and> map ENVIRONMENT (heap (snd (get_settings app_schemas
          \<lparr>environ = [(''ENVIRONMENT'', ''development'')], dotenv = None, cuda_is_available = True\<rparr>
          (snd (get_settings app_schemas
                 \<lparr>environ = [(''ENVIRONMENT'', ''testing'')], dotenv = None,
                  cuda_is_available = False\<rparr>
                 initial_state))))) = [''testing'']"
proof -
  let ?w = "\<lparr>environ = [(''ENVIRONMENT'', ''testing'')], dotenv = None, cuda_is_available = False\<rparr>"
  let ?w' = "\<lparr>environ = [(''ENVIRONMENT'', ''development'')], dotenv = None, cuda_is_available = True\<rparr>"
  obtain s where i: "Settings_init app_schemas ?w = Inr s" and e: "ENVIRONMENT s = ''testing''"
    by (simp add: init_defs eval_defs)
  have h: "get_settings app_schemas ?w initial_state = (Inr 0, \<lparr>heap = [s], cache = Some 0\<rparr>)"
    by (simp add: get_settings_def initial_state_def i)
  from get_settings_cached [OF h] have "get_settings app_schemas ?w' \<lparr>heap = [s], cache = Some 0\<rparr>
       = (Inr 0, \<lparr>heap = [s], cache = Some 0\<rparr>)"
    by blast
  with h e show ?thesis by simp
qed

section \<open>Unrecognized values of enum fields\<close>



section \<open>The environment name\<close>

text \<open>
  C6. In a constructed Settings, when the process environment holds the variable
  \<open>ENVIRONMENT\<close> with a value that is not empty, \<open>ENVIRONMENT\<close> is the lowercase form of that
  value; when the process environment does not hold the variable and the environment
  file gives it a value that is not empty, it is the lowercase form of the value of the
  file; in both cases it holds no uppercase letter. When neither holds the variable it
  is \<open>production\<close>. The values are ASCII text, where \<open>py_lower\<close> is \<open>str.lower\<close>.
\<close>

theorem environment_is_lowercase:
  assumes "Settings_init sch w = Inr s"
  shows "(\<forall>v. dict_get (environ w) ''ENVIRONMENT'' = Some v \<and> v \<noteq> [] \<and> isascii v \<longrightarrow>
            ENVIRONMENT s = py_lower v
            \<and> set (ENVIRONMENT s) \<inter> set ''ABCDEFGHIJKLMNOPQRSTUVWXYZ'' = {})
       \<and> (\<forall>vars v. dict_get (environ w) ''ENVIRONMENT'' = None \<and> dotenv w = Some vars
                    \<and> dict_get vars ''ENVIRONMENT'' = Some v \<and> v \<noteq> [] \<and> isascii v \<longrightarrow>
            ENVIRONMENT s = py_lower v
            \<and> set (ENVIRONMENT s) \<inter> set ''ABCDEFGHIJKLMNOPQRSTUVWXYZ'' = {})
       \<and> (dict_get (environ w) ''ENVIRONMENT'' = None
            \<and> (\<forall>vars. dotenv w = Some vars \<longrightarrow> dict_get vars ''ENVIRONMENT'' = None) \<longrightarrow>
            ENVIRONMENT s = ''production'')"
proof -
  note e = Settings_init_Inr(1) [OF assms]
  have low: "py_lower ''production'' = ''production''"
    by (simp add: py_lower_def char_lower_def)
  have u: "set (py_lower v) \<inter> set ''ABCDEFGHIJKLMNOPQRSTUVWXYZ'' = {}" for v
    using py_lower_not_upper [of _ v] by blast
  have a: "ENVIRONMENT s = py_lower v"
    if "dict_get (environ w) ''ENVIRONMENT'' = Some v" "v \<noteq> []" for v
    using e that by (simp add: field_value_Settings validate_str_def normalize_environment_def)
  have b: "ENVIRONMENT s = py_lower v"
    if "dict_get (environ w) ''ENVIRONMENT'' = None" "dotenv w = Some vars"
      "dict_get vars ''ENVIRONMENT'' = Some v" "v \<noteq> []" for vars v
    using e that by (simp add: field_value_Settings validate_str_def normalize_environment_def)
  have c: "ENVIRONMENT s = ''production''"
    if "dict_get (environ w) ''ENVIRONMENT'' = None"
      "\<forall>vars. dotenv w = Some vars \<longrightarrow> dict_get vars ''ENVIRONMENT'' = None"
    using e that low
    by (simp add: field_value_Settings validate_str_def normalize_environment_def
        split: option.splits)
  have A: "\<forall>v. dict_get (environ w) ''ENVIRONMENT'' = Some v \<and> v \<noteq> [] \<and> isascii v \<longrightarrow>
            ENVIRONMENT s = py_lower v
            \<and> set (ENVIRONMENT s) \<inter> set ''ABCDEFGHIJKLMNOPQRSTUVWXYZ'' = {}"
  proof (intro allI impI)
    fix v
    assume "dict_get (environ w) ''ENVIRONMENT'' = Some v \<and> v \<noteq> [] \<and> isascii v"
    then have "ENVIRONMENT s = py_lower v" using a by simp
    then show "ENVIRONMENT s = py_lower v
            \<and> set (ENVIRONMENT s) \<inter> set ''ABCDEFGHIJKLMNOPQRSTUVWXYZ'' = {}"
      using u [of v] by simp
  qed
  have B: "\<forall>vars v. dict_get (environ w) ''ENVIRONMENT'' = None \<and> dotenv w = Some vars
                    \<and> dict_get vars ''ENVIRONMENT'' = Some v \<and> v \<noteq> [] \<and> isascii v \<longrightarrow>
            ENVIRONMENT s = py_lower v
            \<and> set (ENVIRONMENT s) \<inter> set ''ABCDEFGHIJKLMNOPQRSTUVWXYZ'' = {}"
  proof (intro allI impI)
    fix vars v
    assume "dict_get (environ w) ''ENVIRONMENT'' = None \<and> dotenv w = Some vars
                    \<and> dict_get vars ''ENVIRONMENT'' = Some v \<and> v \<noteq> [] \<and> isascii v"
    then have "ENVIRONMENT s = py_lower v" using b by simp
    then show "ENVIRONMENT s = py_lower v
            \<and> set (ENVIRONMENT s) \<inter> set ''ABCDEFGHIJKLMNOPQRSTUVWXYZ'' = {}"
      using u [of v] by simp
  qed
  have C: "dict_get (environ w) ''ENVIRONMENT'' = None
            \<and> (\<forall>vars. dotenv w = Some vars \<longrightarrow> dict_get vars ''ENVIRONMENT'' = None) \<longrightarrow>
            ENVIRONMENT s = ''production''"
    using c by simp
  show ?thesis
    by (rule conjI [OF A conjI [OF B C]])
qed

text \<open>
  The live value \<open>Staging\<close> is stored as \<open>staging\<close> and the live value \<open>Production\<close> as
  \<open>production\<close>; the value \<open>Testing\<close> of the file is stored as \<open>testing\<close> when the variable
  is not live; with no variable at all \<open>production\<close> is stored.
\<close>

theorem environment_is_lowercase_witness:
  "(\<exists>s. Settings_init app_schemas
       \<lparr>environ = [(''ENVIRONMENT'', ''Staging'')], dotenv = None, cuda_is_available = False\<rparr>
       = Inr s \<and> ENVIRONMENT s = ''staging'')
   \<and> (\<exists>s. Settings_init app_schemas
       \<lparr>environ = [(''ENVIRONMENT'', ''Production'')], dotenv = None, cuda_is_available = False\<rparr>
       = Inr s \<and> ENVIRONMENT s = ''production'')
   \<and> (\<exists>s. Settings_init app_schemas
       \<lparr>environ = [(''HOME'', ''/root'')], dotenv = Some [(''ENVIRONMENT'', ''Testing'')],
        cuda_is_available = False\<rparr>
       = Inr s \<and> ENVIRONMENT s = ''testing'')
   \<and> (\<exists>s. Settings_init app_schemas
       \<lparr>environ = [(''HOME'', ''/root'')], dotenv = None, cuda_is_available = False\<rparr>
       = Inr s \<and> ENVIRONMENT s = ''production'')"
proof -
  let ?a = "\<lparr>environ = [(''ENVIRONMENT'', ''Staging'')], dotenv = None, cuda_is_available = False\<rparr>"
  let ?b = "\<lparr>environ = [(''ENVIRONMENT'', ''Production'')], dotenv = None,
             cuda_is_available = False\<rparr>"
  let ?c = "\<lparr>environ = [(''HOME'', ''/root'')], dotenv = Some [(''ENVIRONMENT'', ''Testing'')],
             cuda_is_available = False\<rparr>"
  let ?d = "\<lparr>environ = [(''HOME'', ''/root'')], dotenv = None, cuda_is_available = False\<rparr>"
  obtain sa where ia: "Settings_init app_schemas ?a = Inr sa"
    by (simp add: init_defs eval_defs)
  obtain sb where ib: "Settings_init app_schemas ?b = Inr sb"
    by (simp add: init_defs eval_defs)
  obtain sc where ic: "Settings_init app_schemas ?c = Inr sc"
    by (simp add: init_defs eval_defs)
  obtain sd where id: "Settings_init app_schemas ?d = Inr sd"
    by (simp add: init_defs eval_defs)
  have l: "py_lower ''Staging'' = ''staging''" "py_lower ''Production'' = ''production''"
    "py_lower ''Testing'' = ''testing''"
    by (simp_all add: py_lower_def char_lower_def)
  have x: "isascii ''Staging''" "isascii ''Production''" "isascii ''Testing''"
    by (simp_all add: isascii_def)
  have "ENVIRONMENT sa = py_lower ''Staging''"
    using environment_is_lowercase [OF ia] x by (simp add: dict_get_def)
  moreover have "ENVIRONMENT sb = py_lower ''Production''"
    using environment_is_lowercase [OF ib] x by (simp add: dict_get_def)
  moreover have "ENVIRONMENT sc = py_lower ''Testing''"
    using environment_is_lowercase [OF ic] x by (simp add: dict_get_def)
  moreover have "ENVIRONMENT sd = ''production''"
    using environment_is_lowercase [OF id] by (simp add: dict_get_def)
  ultimately show ?thesis using ia ib ic id l by simp
qed

text \<open>
  C10. When the value found for the variable \<open>ENVIRONMENT\<close> is the empty string, the
  constructed Settings stores \<open>production\<close>.
\<close>

theorem empty_environment_is_production:
  assumes "Settings_init sch w = Inr s"
    and "field_value Settings_model_config w ''ENVIRONMENT'' = Some []"
  shows "ENVIRONMENT s = ''production''"
  using Settings_init_Inr(1) [OF assms(1)] assms(2)
  by (simp add: normalize_environment_def validate_str_def)

text \<open>
  An empty live variable, with a file that gives another value: the live variable is
  the one found, and \<open>production\<close> is stored.
\<close>

theorem empty_environment_is_production_witness:
  "\<exists>s. Settings_init app_schemas
       \<lparr>environ = [(''ENVIRONMENT'', '''')], dotenv = Some [(''ENVIRONMENT'', ''dev'')],
        cuda_is_available = False\<rparr>
       = Inr s \<and> ENVIRONMENT s = ''production''"
proof -
  let ?w = "\<lparr>environ = [(''ENVIRONMENT'', '''')], dotenv = Some [(''ENVIRONMENT'', ''dev'')],
        cuda_is_available = False\<rparr>"
  obtain s where i: "Settings_init app_schemas ?w = Inr s"
    by (simp add: init_defs eval_defs)
  have f: "field_value Settings_model_config ?w ''ENVIRONMENT'' = Some []"
    by (simp add: eval_defs)
  from empty_environment_is_production [OF i f] i show ?thesis by simp
qed

section \<open>Live variables and the environment file\<close>

text \<open>
  C7, as the claim states it, fails: a variable of the environment file can take
  precedence over a live variable for the same setting. The file addresses the URL of the
  database group in the nested form, \<open>database__DB_URL=file:///tmp/x.db\<close>, and the process
  environment holds \<open>DB_URL=file:///tmp/y.db\<close>. Settings hands the value of the file to
  DatabaseSettings as a keyword argument, which comes before the variables that
  DatabaseSettings reads itself: the value of the file is stored.
\<close>

theorem file_beats_live_variable_counterexample:
  "Settings_init app_schemas
     \<lparr>environ = [(''DB_URL'', ''file:///tmp/y.db'')],
      dotenv = Some [(''database__DB_URL'', ''file:///tmp/x.db'')],
      cuda_is_available = False\<rparr>
   = Inr \<lparr>ENVIRONMENT = ''production'', DEV = False,
          database = \<lparr>DB_URL = ''file:///tmp/x.db'', DB_ECHO = False\<rparr>,
          whisper = \<lparr>HF_TOKEN = None, WHISPER_MODEL = tiny, DEFAULT_LANG = ''en'',
                      DEVICE = cpu, COMPUTE_TYPE = int8,
                      AUDIO_EXTENSIONS = AUDIO_EXTENSIONS_default,
                      VIDEO_EXTENSIONS = VIDEO_EXTENSIONS_default\<rparr>,
          logging = \<lparr>LOG_LEVEL = ''INFO'', LOG_FORMAT = ''text'', FILTER_WARNING = True\<rparr>\<rparr>"
  by (simp add: init_defs eval_defs)

text \<open>
  C7, amended. When a name is both a key of the environment file and a live variable, the
  live variable is the one used: the construction gives the same result with the key
  removed from the file. Settings reads \<open>ENVIRONMENT\<close>, \<open>DEV\<close> and the nested forms such as
  \<open>database__DB_URL\<close> from both sources, the process environment first, so \<open>ENVIRONMENT\<close>
  and \<open>DEV\<close> hold the normalized and the parsed live value and \<open>DB_URL\<close> of the database
  group holds the live value of \<open>database__DB_URL\<close>. The flat variable \<open>DB_URL\<close> is read
  from the process environment only, and after the nested form: when \<open>database__DB_URL\<close>
  is not live and the file gives it, the value of the file is stored, whatever the live
  \<open>DB_URL\<close> is; the live \<open>DB_URL\<close> is stored when neither source gives the nested form.
  The variables that reach a group hold plain strings, which \<open>string_vars\<close> describes: a
  variable that holds a JSON document, for a whole group or for a set of extensions, is
  decoded by each source on its own and is left out. The value of \<open>ENVIRONMENT\<close> is ASCII
  text.
\<close>

theorem live_variable_wins:
  assumes "string_vars w" and "Settings_init sch w = Inr s"
  shows "Settings_init sch (without_conflicts w) = Inr s
       \<and> (\<forall>v. dict_get (environ w) ''ENVIRONMENT'' = Some v \<and> isascii v \<longrightarrow>
              ENVIRONMENT s = normalize_environment v)
       \<and> (\<forall>v. dict_get (environ w) ''DEV'' = Some v \<longrightarrow> str_to_bool v = Some (DEV s))
       \<and> (\<forall>y. dict_get (environ w) ''database__DB_URL'' = Some y \<longrightarrow> DB_URL (database s) = y)
       \<and> (\<forall>vars x. dict_get (environ w) ''database__DB_URL'' = None \<and> dotenv w = Some vars
                    \<and> dict_get vars ''database__DB_URL'' = Some x \<longrightarrow>
              DB_URL (database s) = x)
       \<and> (\<forall>y. dict_get (environ w) ''database__DB_URL'' = None
              \<and> (\<forall>vars. dotenv w = Some vars \<longrightarrow> dict_get vars ''database__DB_URL'' = None)
              \<and> dict_get (environ w) ''DB_URL'' = Some y
              \<and> list_all (\<lambda>(k, v). py_lower k = ''db_url'' \<longrightarrow> k = ''DB_URL'') (environ w) \<longrightarrow>
              DB_URL (database s) = y)"
proof -
  have same: "Settings_init sch (without_conflicts w) = Inr s"
    using Settings_init_without_conflicts [OF assms(1)] assms(2) by simp
  have env: "\<forall>v. dict_get (environ w) ''ENVIRONMENT'' = Some v \<and> isascii v \<longrightarrow>
              ENVIRONMENT s = normalize_environment v"
    using Settings_init_Inr(1) [OF assms(2)]
    by (simp add: field_value_Settings validate_str_def)
  have dev: "\<forall>v. dict_get (environ w) ''DEV'' = Some v \<longrightarrow> str_to_bool v = Some (DEV s)"
    using Settings_init_Inr(2) [OF assms(2)]
    by (auto simp: field_value_Settings validate_bool_def split: option.splits)
  note db = database_DB_URL [OF assms(2)]
  have live: "\<forall>y. dict_get (environ w) ''database__DB_URL'' = Some y \<longrightarrow> DB_URL (database s) = y"
    using db by (simp add: field_value_Settings validate_str_def)
  have nested: "\<forall>vars x. dict_get (environ w) ''database__DB_URL'' = None \<and> dotenv w = Some vars
                    \<and> dict_get vars ''database__DB_URL'' = Some x \<longrightarrow>
              DB_URL (database s) = x"
    using db by (simp add: field_value_Settings validate_str_def)
  have low: "py_lower ''DB_URL'' = ''db_url''"
    by (simp add: py_lower_def char_lower_def)
  have flat: "\<forall>y. dict_get (environ w) ''database__DB_URL'' = None
              \<and> (\<forall>vars. dotenv w = Some vars \<longrightarrow> dict_get vars ''database__DB_URL'' = None)
              \<and> dict_get (environ w) ''DB_URL'' = Some y
              \<and> list_all (\<lambda>(k, v). py_lower k = ''db_url'' \<longrightarrow> k = ''DB_URL'') (environ w) \<longrightarrow>
              DB_URL (database s) = y"
  proof (intro allI impI)
    fix y
    assume h: "dict_get (environ w) ''database__DB_URL'' = None
              \<and> (\<forall>vars. dotenv w = Some vars \<longrightarrow> dict_get vars ''database__DB_URL'' = None)
              \<and> dict_get (environ w) ''DB_URL'' = Some y
              \<and> list_all (\<lambda>(k, v). py_lower k = ''db_url'' \<longrightarrow> k = ''DB_URL'') (environ w)"
    then have "list_all (\<lambda>(k, v). py_lower k = py_lower ''DB_URL'' \<longrightarrow> k = ''DB_URL'') (environ w)"
      using low by simp
    from field_value_BaseSettings_exact [OF this] h
    have f: "field_value BaseSettings_model_config w ''DB_URL'' = Some y" by simp
    from h have n: "field_value Settings_model_config w ''database__DB_URL'' = None"
      by (simp add: field_value_Settings split: option.splits)
    from db f n show "DB_URL (database s) = y" by (simp add: validate_str_def)
  qed
  show ?thesis
    by (rule conjI [OF same conjI [OF env conjI [OF dev conjI [OF live conjI [OF nested flat]]]]])
qed

text \<open>
  The file sets \<open>database__DB_URL=file:///tmp/x.db\<close> and \<open>ENVIRONMENT=dev\<close>, the process
  environment sets \<open>database__DB_URL=file:///tmp/y.db\<close> and \<open>ENVIRONMENT=Staging\<close>: the live
  values are held. So is the live \<open>DB_URL=file:///tmp/y.db\<close> when the file sets
  \<open>DB_URL=file:///tmp/x.db\<close>.
\<close>

theorem live_variable_wins_witness:
  "string_vars
     \<lparr>environ = [(''database__DB_URL'', ''file:///tmp/y.db''), (''ENVIRONMENT'', ''Staging'')],
      dotenv = Some [(''database__DB_URL'', ''file:///tmp/x.db''), (''ENVIRONMENT'', ''dev'')],
      cuda_is_available = False\<rparr>
   \<and> (\<exists>s. Settings_init app_schemas
     \<lparr>environ = [(''database__DB_URL'', ''file:///tmp/y.db''), (''ENVIRONMENT'', ''Staging'')],
      dotenv = Some [(''database__DB_URL'', ''file:///tmp/x.db''), (''ENVIRONMENT'', ''dev'')],
      cuda_is_available = False\<rparr> = Inr s
      \<and> DB_URL (database s) = ''file:///tmp/y.db'' \<and> ENVIRONMENT s = ''staging'')
   \<and> string_vars
     \<lparr>environ = [(''DB_URL'', ''file:///tmp/y.db'')],
      dotenv = Some [(''DB_URL'', ''file:///tmp/x.db'')], cuda_is_available = False\<rparr>
   \<and> (\<exists>s. Settings_init app_schemas
     \<lparr>environ = [(''DB_URL'', ''file:///tmp/y.db'')],
      dotenv = Some [(''DB_URL'', ''file:///tmp/x.db'')], cuda_is_available = False\<rparr> = Inr s
      \<and> DB_URL (database s) = ''file:///tmp/y.db'')"
proof -
  let ?w = "\<lparr>environ = [(''database__DB_URL'', ''file:///tmp/y.db''), (''ENVIRONMENT'', ''Staging'')],
      dotenv = Some [(''database__DB_URL'', ''file:///tmp/x.db''), (''ENVIRONMENT'', ''dev'')],
      cuda_is_available = False\<rparr>"
  let ?u = "\<lparr>environ = [(''DB_URL'', ''file:///tmp/y.db'')],
      dotenv = Some [(''DB_URL'', ''file:///tmp/x.db'')], cuda_is_available = False\<rparr>"
  have p: "string_vars ?w" "string_vars ?u"
    by (simp_all add: string_vars_def string_name_def)
  obtain s where i: "Settings_init app_schemas ?w = Inr s"
    by (simp add: init_defs eval_defs)
  obtain t where j: "Settings_init app_schemas ?u = Inr t"
    by (simp add: init_defs eval_defs)
  have a: "dict_get (environ ?w) ''database__DB_URL'' = Some ''file:///tmp/y.db''"
    "dict_get (environ ?w) ''ENVIRONMENT'' = Some ''Staging''"
    "dict_get (environ ?u) ''database__DB_URL'' = None"
    "dict_get (environ ?u) ''DB_URL'' = Some ''file:///tmp/y.db''"
    "\<forall>vars. dotenv ?u = Some vars \<longrightarrow> dict_get vars ''database__DB_URL'' = None"
    by (simp_all add: dict_get_def)
  have b: "list_all (\<lambda>(k, v). py_lower k = ''db_url'' \<longrightarrow> k = ''DB_URL'') (environ ?u)"
    by simp
  have c: "normalize_environment ''Staging'' = ''staging''" "isascii ''Staging''"
    by (simp_all add: normalize_environment_def py_lower_def char_lower_def isascii_def)
  note m = live_variable_wins [OF p(1) i]
  note n = live_variable_wins [OF p(2) j]
  have "DB_URL (database s) = ''file:///tmp/y.db''" using m a(1) by blast
  moreover have "ENVIRONMENT s = ''staging''" using m a(2) c by metis
  moreover have "DB_URL (database t) = ''file:///tmp/y.db''" using n a(3,4,5) b by blast
  ultimately show ?thesis using p i j by blast
qed

section \<open>Letter case in the names of variables\<close>

text \<open>
  C9, as the claim states it, fails: the nested groups declare no \<open>model_config\<close>, are
  built by their own constructors, and so match names without regard to letter case. The
  variables \<open>db_url\<close> and \<open>log_level\<close> populate \<open>DB_URL\<close> of the database group and
  \<open>LOG_LEVEL\<close> of the logging group.
\<close>

theorem nested_groups_match_any_case_counterexample:
  "Settings_init app_schemas
     \<lparr>environ = [(''db_url'', ''sqlite:///other.db''), (''log_level'', ''DEBUG'')],
      dotenv = None, cuda_is_available = False\<rparr>
   = Inr \<lparr>ENVIRONMENT = ''production'', DEV = False,
          database = \<lparr>DB_URL = ''sqlite:///other.db'', DB_ECHO = False\<rparr>,
          whisper = \<lparr>HF_TOKEN = None, WHISPER_MODEL = tiny, DEFAULT_LANG = ''en'',
                      DEVICE = cpu, COMPUTE_TYPE = int8,
                      AUDIO_EXTENSIONS = AUDIO_EXTENSIONS_default,
                      VIDEO_EXTENSIONS = VIDEO_EXTENSIONS_default\<rparr>,
          logging = \<lparr>LOG_LEVEL = ''DEBUG'', LOG_FORMAT = ''text'', FILTER_WARNING = True\<rparr>\<rparr>"
  by (simp add: init_defs eval_defs)

text \<open>
  C9, amended. Matching is case-sensitive for the fields of the top-level Settings:
  a variable added under a name other than the field's, in particular one that differs
  from it only in letter case, changes neither what Settings finds for the field nor
  \<open>ENVIRONMENT\<close> and \<open>DEV\<close> of the constructed instance. For a nested group matching
  ignores letter case: a variable whose name equals the field's name up to letter case
  is what the group finds for the field, and it populates \<open>DB_URL\<close>, \<open>DEFAULT_LANG\<close> and
  \<open>LOG_LEVEL\<close> of the constructed groups.
\<close>

theorem case_sensitivity_by_group:
  "(k \<noteq> field \<longrightarrow>
      field_value Settings_model_config (with_variable w k v) field
        = field_value Settings_model_config w field)
   \<and> (k \<noteq> ''ENVIRONMENT'' \<and> k \<noteq> ''DEV'' \<and> Settings_init sch w = Inr s
        \<and> Settings_init sch (with_variable w k v) = Inr s' \<longrightarrow>
      ENVIRONMENT s' = ENVIRONMENT s \<and> DEV s' = DEV s)
   \<and> (py_lower k = py_lower field \<longrightarrow>
      field_value BaseSettings_model_config (with_variable w k v) field = Some v)
   \<and> (py_lower k = ''db_url'' \<and> DatabaseSettings_init (with_variable w k v) = Inr d \<longrightarrow>
      DB_URL d = v)
   \<and> (py_lower k = ''default_lang'' \<and> WhisperSettings_init sch (with_variable w k v) = Inr ws
        \<longrightarrow> DEFAULT_LANG ws = v)
   \<and> (py_lower k = ''log_level'' \<and> LoggingSettings_init (with_variable w k v) = Inr l \<longrightarrow>
      LOG_LEVEL l = v)"
proof -
  have low: "py_lower ''DB_URL'' = ''db_url''" "py_lower ''DEFAULT_LANG'' = ''default_lang''"
    "py_lower ''LOG_LEVEL'' = ''log_level''"
    by (simp_all add: py_lower_def char_lower_def)
  have top: "ENVIRONMENT s' = ENVIRONMENT s \<and> DEV s' = DEV s"
    if "k \<noteq> ''ENVIRONMENT''" "k \<noteq> ''DEV''" "Settings_init sch w = Inr s"
      "Settings_init sch (with_variable w k v) = Inr s'"
    using Settings_init_Inr(1,2) [OF that(3)] Settings_init_Inr(1,2) [OF that(4)] that(1,2)
    by (simp add: field_value_Settings_with_variable)
  have db: "DB_URL d = v"
    if "py_lower k = ''db_url''" "DatabaseSettings_init (with_variable w k v) = Inr d"
    using DatabaseSettings_init_Inr [OF that(2)] that(1) low
    by (simp add: field_value_BaseSettings_with_variable validate_str_def)
  have wh: "DEFAULT_LANG ws = v"
    if "py_lower k = ''default_lang''" "WhisperSettings_init sch (with_variable w k v) = Inr ws"
    using WhisperSettings_init_DEFAULT_LANG [OF that(2)] that(1) low
    by (simp add: field_value_BaseSettings_with_variable validate_str_def)
  have lg: "LOG_LEVEL l = v"
    if "py_lower k = ''log_level''" "LoggingSettings_init (with_variable w k v) = Inr l"
    using LoggingSettings_init_Inr [OF that(2)] that(1) low
    by (simp add: field_value_BaseSettings_with_variable validate_str_def)
  show ?thesis
    using top db wh lg field_value_Settings_with_variable [of k field w v]
      field_value_BaseSettings_with_variable [of k field w v]
    by blast
qed

text \<open>
  The variable \<open>environment\<close> leaves the field \<open>ENVIRONMENT\<close> of Settings without a value;
  the variable \<open>db_url\<close> is the value the database group finds for \<open>DB_URL\<close>.
\<close>

theorem case_sensitivity_by_group_witness:
  "''environment'' \<noteq> ''ENVIRONMENT'' \<and> py_lower ''environment'' = py_lower ''ENVIRONMENT''
   \<and> field_value Settings_model_config
        (with_variable \<lparr>environ = [], dotenv = None, cuda_is_available = False\<rparr>
           ''environment'' ''development'')
        ''ENVIRONMENT'' = None
   \<and> field_value BaseSettings_model_config
        (with_variable \<lparr>environ = [], dotenv = None, cuda_is_available = False\<rparr>
           ''db_url'' ''sqlite:///other.db'')
        ''DB_URL'' = Some ''sqlite:///other.db''"
proof -
  let ?w = "\<lparr>environ = [], dotenv = None, cuda_is_available = False\<rparr>"
  have n: "''environment'' \<noteq> ''ENVIRONMENT''" by simp
  have l: "py_lower ''environment'' = py_lower ''ENVIRONMENT''"
    "py_lower ''db_url'' = py_lower ''DB_URL''"
    by (simp_all add: py_lower_def char_lower_def)
  have z: "field_value Settings_model_config ?w ''ENVIRONMENT'' = None"
    by (simp add: eval_defs)
  have a: "field_value Settings_model_config (with_variable ?w ''environment'' ''development'')
        ''ENVIRONMENT'' = field_value Settings_model_config ?w ''ENVIRONMENT''"
    using case_sensitivity_by_group [of "''environment''" "''ENVIRONMENT''" ?w "''development''"] n
    by blast
  have b: "field_value BaseSettings_model_config (with_variable ?w ''db_url'' ''sqlite:///other.db'')
        ''DB_URL'' = Some ''sqlite:///other.db''"
    using case_sensitivity_by_group [of "''db_url''" "''DB_URL''" ?w "''sqlite:///other.db''"] l(2)
    by blast
  from a b z n l(1) show ?thesis by simp
qed

section \<open>The failure of the import of torch\<close>
lemma contains_iff: "contains s sub \<longleftrightarrow> (\<exists>p q. s = p @ sub @ q)"
proof (induction s)
  case Nil
  then show ?case by auto
next
  case (Cons c cs)
  show ?case
  proof
    assume "contains (c # cs) sub"
    then consider "take (length sub) (c # cs) = sub" | "contains cs sub" by auto
    then show "\<exists>p q. c # cs = p @ sub @ q"
    proof cases
      case 1
      then have "c # cs = [] @ sub @ drop (length sub) (c # cs)"
        by (metis append_Nil append_take_drop_id)
      then show ?thesis by blast
    next
      case 2
      with Cons.IH obtain p q where "cs = p @ sub @ q" by blast
      then have "c # cs = (c # p) @ sub @ q" by simp
      then show ?thesis by blast
    qed
  next
    assume "\<exists>p q. c # cs = p @ sub @ q"
    then obtain p q where pq: "c # cs = p @ sub @ q" by blast
    show "contains (c # cs) sub"
    proof (cases p)
      case Nil
      with pq have "take (length sub) (c # cs) = sub" by simp
      then show ?thesis by simp
    next
      case (Cons a p')
      with pq have "cs = p' @ sub @ q" by simp
      with Cons.IH have "contains cs sub" by blast
      then show ?thesis by simp
    qed
  qed
qed
lemma contains_mid: "contains (p @ sub @ q) sub"
  unfolding contains_iff by blast

text \<open>What the message of the raised \<open>ImportError\<close> embeds.\<close>

lemma nccl_message_embeds:
  "contains (nccl_message error_msg ld_preload ld_library_path) error_msg"
  "contains (nccl_message error_msg ld_preload ld_library_path) (''  LD_PRELOAD: '' @ ld_preload)"
  "contains (nccl_message error_msg ld_preload ld_library_path)
     (''  LD_LIBRARY_PATH: '' @ ld_library_path)"
  "contains (nccl_message error_msg ld_preload ld_library_path)
     ''PyTorch 2.8+ requires NCCL 2.18+''"
proof -
  let ?m = "nccl_message error_msg ld_preload ld_library_path"
  have "?m = ''PyTorch import failed due to NCCL compatibility issue: '' @ error_msg
      @ (''\<newline>This usually indicates that PyTorch 2.8+ requires NCCL 2.18+ with the 'ncclGroupSimulateEnd' symbol.\<newline>Diagnostic information:\<newline>  LD_PRELOAD: ''
         @ ld_preload @ ''\<newline>  LD_LIBRARY_PATH: '' @ ld_library_path
         @ ''\<newline>  Python attempted to set LD_PRELOAD but it may be too late.\<newline>Please ensure the startup script correctly sets LD_PRELOAD to a compatible NCCL library.'')"
    by (simp add: nccl_message_def)
  then show "contains ?m error_msg"
    by (simp only: contains_mid)
  have "?m = (''PyTorch import failed due to NCCL compatibility issue: '' @ error_msg
      @ ''\<newline>This usually indicates that PyTorch 2.8+ requires NCCL 2.18+ with the 'ncclGroupSimulateEnd' symbol.\<newline>Diagnostic information:\<newline>'')
      @ (''  LD_PRELOAD: '' @ ld_preload)
      @ (''\<newline>  LD_LIBRARY_PATH: '' @ ld_library_path
         @ ''\<newline>  Python attempted to set LD_PRELOAD but it may be too late.\<newline>Please ensure the startup script correctly sets LD_PRELOAD to a compatible NCCL library.'')"
    by (simp add: nccl_message_def)
  then show "contains ?m (''  LD_PRELOAD: '' @ ld_preload)"
    by (simp only: contains_mid)
  have "?m = (''PyTorch import failed due to NCCL compatibility issue: '' @ error_msg
      @ ''\<newline>This usually indicates that PyTorch 2.8+ requires NCCL 2.18+ with the 'ncclGroupSimulateEnd' symbol.\<newline>Diagnostic information:\<newline>  LD_PRELOAD: ''
      @ ld_preload @ ''\<newline>'')
      @ (''  LD_LIBRARY_PATH: '' @ ld_library_path)
      @ ''\<newline>  Python attempted to set LD_PRELOAD but it may be too late.\<newline>Please ensure the startup script correctly sets LD_PRELOAD to a compatible NCCL library.''"
    by (simp add: nccl_message_def)
  then show "contains ?m (''  LD_LIBRARY_PATH: '' @ ld_library_path)"
    by (simp only: contains_mid)
  have "?m = (''PyTorch import failed due to NCCL compatibility issue: '' @ error_msg
      @ ''\<newline>This usually indicates that '')
      @ ''PyTorch 2.8+ requires NCCL 2.18+''
      @ ('' with the 'ncclGroupSimulateEnd' symbol.\<newline>Diagnostic information:\<newline>  LD_PRELOAD: ''
      @ ld_preload @ ''\<newline>  LD_LIBRARY_PATH: '' @ ld_library_path
      @ ''\<newline>  Python attempted to set LD_PRELOAD but it may be too late.\<newline>Please ensure the startup script correctly sets LD_PRELOAD to a compatible NCCL library.'')"
    by (simp add: nccl_message_def)
  then show "contains ?m ''PyTorch 2.8+ requires NCCL 2.18+''"
    by (simp only: contains_mid)
qed

text \<open>
  C8, as the claim states it, fails: the handler is entered only for an instance of
  \<open>ImportError\<close>, \<open>OSError\<close> or \<open>RuntimeError\<close>. An exception of another class, here the
  \<open>AttributeError\<close> of a failed symbol lookup, leaves the statement as it is although its
  message contains a marker.
\<close>

theorem import_torch_other_class_counterexample:
  "contains ''/usr/lib/libnccl.so.2: undefined symbol: ncclGroupSimulateEnd'' ''undefined symbol''
   \<and> import_torch []
        (Some (Exc [''AttributeError'', ''Exception'', ''BaseException'']
                 ''/usr/lib/libnccl.so.2: undefined symbol: ncclGroupSimulateEnd'' None))
      = Some (Exc [''AttributeError'', ''Exception'', ''BaseException'']
                ''/usr/lib/libnccl.so.2: undefined symbol: ncclGroupSimulateEnd'' None)"
  by (simp add: import_torch_def handled_def)

text \<open>
  C8, amended. When the import of torch raises an instance of \<open>ImportError\<close>, \<open>OSError\<close> or
  \<open>RuntimeError\<close> whose message contains \<open>ncclGroupSimulateEnd\<close> or \<open>undefined symbol\<close>, the
  statement raises an \<open>ImportError\<close> whose cause is the original exception and whose
  message embeds the original message, the values of \<open>LD_PRELOAD\<close> and of
  \<open>LD_LIBRARY_PATH\<close> (\<open>not set\<close> for an absent one) and the explanation of the cause. Every
  other exception leaves the statement as it was raised, and a successful import raises
  nothing.
\<close>

theorem import_torch_guard:
  "import_torch env None = None
   \<and> (handled e \<and> (contains (exc_str e) ''ncclGroupSimulateEnd''
                    \<or> contains (exc_str e) ''undefined symbol'') \<longrightarrow>
        (\<exists>msg. import_torch env (Some e)
                 = Some (Exc [''ImportError'', ''Exception'', ''BaseException''] msg (Some e))
           \<and> contains msg (exc_str e)
           \<and> contains msg (''  LD_PRELOAD: '' @ environ_get env ''LD_PRELOAD'' ''not set'')
           \<and> contains msg
                (''  LD_LIBRARY_PATH: '' @ environ_get env ''LD_LIBRARY_PATH'' ''not set'')
           \<and> contains msg ''PyTorch 2.8+ requires NCCL 2.18+''))
   \<and> (\<not> (handled e \<and> (contains (exc_str e) ''ncclGroupSimulateEnd''
                       \<or> contains (exc_str e) ''undefined symbol'')) \<longrightarrow>
        import_torch env (Some e) = Some e)"
proof -
  let ?marked = "handled e \<and> (contains (exc_str e) ''ncclGroupSimulateEnd''
                    \<or> contains (exc_str e) ''undefined symbol'')"
  let ?msg = "nccl_message (exc_str e) (environ_get env ''LD_PRELOAD'' ''not set'')
                (environ_get env ''LD_LIBRARY_PATH'' ''not set'')"
  have a: "import_torch env None = None"
    by (simp add: import_torch_def)
  have b: "import_torch env (Some e)
             = Some (Exc [''ImportError'', ''Exception'', ''BaseException''] ?msg (Some e))"
    if ?marked
    using that by (auto simp: import_torch_def)
  have c: "import_torch env (Some e) = Some e" if "\<not> ?marked"
    using that by (auto simp: import_torch_def)
  note m = nccl_message_embeds [of "exc_str e" "environ_get env ''LD_PRELOAD'' ''not set''"
      "environ_get env ''LD_LIBRARY_PATH'' ''not set''"]
  show ?thesis
    using a b c m by blast
qed

text \<open>
  An \<open>ImportError\<close> for the missing symbol, with \<open>LD_PRELOAD\<close> set and \<open>LD_LIBRARY_PATH\<close>
  not set, is wrapped; a \<open>ModuleNotFoundError\<close> with no marker is raised as it is.
\<close>

theorem import_torch_guard_witness:
  "handled (Exc [''ImportError'', ''Exception'', ''BaseException'']
              ''libtorch_cuda.so: undefined symbol: ncclGroupSimulateEnd'' None)
   \<and> contains ''libtorch_cuda.so: undefined symbol: ncclGroupSimulateEnd'' ''undefined symbol''
   \<and> (\<exists>msg. import_torch [(''LD_PRELOAD'', ''/usr/lib/x86_64-linux-gnu/libnccl.so.2'')]
            (Some (Exc [''ImportError'', ''Exception'', ''BaseException'']
                     ''libtorch_cuda.so: undefined symbol: ncclGroupSimulateEnd'' None))
          = Some (Exc [''ImportError'', ''Exception'', ''BaseException''] msg
                    (Some (Exc [''ImportError'', ''Exception'', ''BaseException'']
                             ''libtorch_cuda.so: undefined symbol: ncclGroupSimulateEnd'' None)))
        \<and> contains msg ''  LD_PRELOAD: /usr/lib/x86_64-linux-gnu/libnccl.so.2''
        \<and> contains msg ''  LD_LIBRARY_PATH: not set'')
   \<and> import_torch [] (Some (Exc [''ModuleNotFoundError'', ''ImportError'', ''Exception'',
                                 ''BaseException''] ''No module named torch'' None))
       = Some (Exc [''ModuleNotFoundError'', ''ImportError'', ''Exception'', ''BaseException'']
                 ''No module named torch'' None)"
proof -
  let ?e = "Exc [''ImportError'', ''Exception'', ''BaseException'']
              ''libtorch_cuda.so: undefined symbol: ncclGroupSimulateEnd'' None"
  let ?env = "[(''LD_PRELOAD'', ''/usr/lib/x86_64-linux-gnu/libnccl.so.2'')]"
  let ?n = "Exc [''ModuleNotFoundError'', ''ImportError'', ''Exception'', ''BaseException'']
              ''No module named torch'' None"
  have h: "handled ?e" by (simp add: handled_def)
  have c: "contains (exc_str ?e) ''undefined symbol''" by simp
  have p: "environ_get ?env ''LD_PRELOAD'' ''not set'' = ''/usr/lib/x86_64-linux-gnu/libnccl.so.2''"
    "environ_get ?env ''LD_LIBRARY_PATH'' ''not set'' = ''not set''"
    by (simp_all add: environ_get_def dict_get_def)
  have n: "\<not> (handled ?n \<and> (contains (exc_str ?n) ''ncclGroupSimulateEnd''
                       \<or> contains (exc_str ?n) ''undefined symbol''))"
    by simp
  from import_torch_guard [of ?env ?e] h c p have
    "\<exists>msg. import_torch ?env (Some ?e)
          = Some (Exc [''ImportError'', ''Exception'', ''BaseException''] msg (Some ?e))
        \<and> contains msg ''  LD_PRELOAD: /usr/lib/x86_64-linux-gnu/libnccl.so.2''
        \<and> contains msg ''  LD_LIBRARY_PATH: not set''"
    by auto
  moreover from import_torch_guard [of "[]" ?n] n have "import_torch [] (Some ?n) = Some ?n"
    by blast
  ultimately show ?thesis using h c by simp
qed

end
